theory Spec2Isabelle
  imports Main "HOL-Library.Word"
begin

unbundle bit_operations_syntax

section \<open>Bytes, numbers and errors\<close>

text \<open>
  A \<open>Buffer\<close>, \<open>Uint8Array\<close> or \<open>ArrayBuffer\<close> is a list of 8-bit words. Strings are
  ASCII strings. Every \<open>throw\<close> of the source is a value of \<open>error\<close>: the constructor is
  the JavaScript error class, the string is the message; \<open>EngineError\<close> stands for whatever
  the primitive engine (Node's \<open>crypto\<close> module) or an external codec throws. Where the
  error is raised by the JavaScript runtime and not by a \<open>throw\<close> of the source (a
  \<open>RangeError\<close> of \<open>randomBytes\<close> or \<open>readInt32BE\<close>, a \<open>TypeError\<close> on a member of
  \<open>undefined\<close>), the class is the runtime's and the message is abridged.
\<close>

type_synonym byte = "8 word"
type_synonym bytes = "byte list"

datatype error =
    OperationError string
  | TypeError string
  | RangeError string
  | Error string
  | EngineError string

text \<open>
  JavaScript's \<open>x << k\<close> and \<open>x >> k\<close>: the operand is converted to a signed 32-bit
  integer, shifted (the right shift keeps the sign), and the result is a signed 32-bit
  integer again.
\<close>

definition shl :: "int \<Rightarrow> nat \<Rightarrow> int" where
  "shl x k = sint (push_bit k (word_of_int x :: 32 word))"

definition shr :: "int \<Rightarrow> nat \<Rightarrow> int" where
  "shr x k = sint (signed_drop_bit k (word_of_int x :: 32 word))"

section \<open>Key model\<close>

text \<open>
  An algorithm descriptor is a JavaScript object; the members the code reads are optional
  fields (\<open>alg_length\<close> is the member \<open>length\<close>, \<open>hash\<close> is \<open>hash.name\<close>).
\<close>

record Algorithm =
  name :: string
  alg_length :: "int option"
  hash :: "string option"
  modulusLength :: "int option"
  publicExponent :: "bytes option"
  namedCurve :: "string option"

datatype KeyType = Secret | Public | Private

text \<open>The concrete class of a key material object, as \<open>instanceof\<close> sees it.\<close>

datatype KeyClass =
    AesCryptoKey | DesCryptoKey
  | RsaPrivateKey | RsaPublicKey
  | EcPrivateKey | EcPublicKey
  | EdPrivateKey | EdPublicKey
  | PbkdfCryptoKey | HmacCryptoKey | HkdfCryptoKey

text \<open>
  \<open>core_CryptoKey\<close> holds the four members of webcrypto-core's \<open>CryptoKey\<close> (\<open>key_type\<close> is
  the member \<open>type\<close>; a missing \<open>algorithm\<close> is \<open>None\<close>). The internal key material
  (\<open>class CryptoKey extends core.CryptoKey\<close> and its subclasses) adds the raw bytes, the
  JWK tag \<open>kty\<close>, the lazily computed PEM text and the class. A handle is a
  \<open>core.CryptoKey\<close> object: it has an identity \<open>ref\<close> (the WeakMap looks handles up by
  identity) and the member \<open>__value\<close>, here \<open>dunder_value\<close>, \<open>None\<close> when the member is
  absent.
\<close>

record core_CryptoKey =
  algorithm :: "Algorithm option"
  key_type :: KeyType
  extractable :: bool
  usages :: "string list"

record InternalCryptoKey = core_CryptoKey +
  data :: bytes
  kty :: string
  pem :: "string option"
  cls :: KeyClass

record Handle = core_CryptoKey +
  ref :: nat
  dunder_value :: "InternalCryptoKey option"

text \<open>
  \<open>new C()\<close> for a key class \<open>C\<close>: the field initialisers of \<open>CryptoKey\<close>, then those
  of the subclass constructors (\<open>SymmetricKey\<close> sets \<open>kty\<close> and \<open>type\<close>, the asymmetric
  classes set \<open>type\<close>).
\<close>

definition class_type :: "KeyClass \<Rightarrow> KeyType" where
  "class_type c =
     (if c \<in> {RsaPrivateKey, EcPrivateKey, EdPrivateKey} then Private
      else if c \<in> {RsaPublicKey, EcPublicKey, EdPublicKey} then Public
      else Secret)"

definition new_key :: "KeyClass \<Rightarrow> InternalCryptoKey" where
  "new_key c =
     \<lparr> algorithm = Some \<lparr> name = [], alg_length = None, hash = None, modulusLength = None,
                           publicExponent = None, namedCurve = None \<rparr>,
       key_type = class_type c, extractable = False, usages = [],
       data = [], kty = ''oct'', pem = None, cls = c \<rparr>"

definition algorithm_named :: "string \<Rightarrow> Algorithm" where
  "algorithm_named n =
     \<lparr> name = n, alg_length = None, hash = None, modulusLength = None,
       publicExponent = None, namedCurve = None \<rparr>"

section \<open>Key registry\<close>

text \<open>
  \<open>keyStorage\<close> is the module's WeakMap from handles (by identity) to key material;
  \<open>next_ref\<close> is the identity the next created object gets. Key material is held by value:
  an assignment to a member of a stored object is written back to the table.
\<close>

record Registry =
  keyStorage :: "nat \<rightharpoonup> InternalCryptoKey"
  next_ref :: nat

definition getCryptoKey :: "Registry \<Rightarrow> Handle \<Rightarrow> (error + InternalCryptoKey) \<times> Registry" where
  "getCryptoKey st key =
     (let res = keyStorage st (ref key);
          (st1, res1) =
            (case (res, dunder_value key) of
               (None, Some v) \<Rightarrow>
                 (let st' = st\<lparr>keyStorage := (keyStorage st)(ref key \<mapsto> v)\<rparr>
                  in (st', keyStorage st' (ref key)))
             | _ \<Rightarrow> (st, res));
          (st2, res2) =
            (case res1 of
               Some r \<Rightarrow>
                 (if algorithm r = None \<and> algorithm key \<noteq> None
                  then (let r' = r\<lparr>algorithm := algorithm key\<rparr>
                        in (st1\<lparr>keyStorage := (keyStorage st1)(ref key \<mapsto> r')\<rparr>, Some r'))
                  else (st1, res1))
             | None \<Rightarrow> (st1, res1))
      in case res2 of
           None \<Rightarrow> (Inl (OperationError ''Cannot get CryptoKey from secure storage''), st2)
         | Some r \<Rightarrow> (Inr r, st2))"

definition setCryptoKey :: "Registry \<Rightarrow> InternalCryptoKey \<Rightarrow> Handle \<times> Registry" where
  "setCryptoKey st v =
     (let key = \<lparr> algorithm = algorithm v, key_type = key_type v,
                   extractable = extractable v, usages = usages v,
                   ref = next_ref st, dunder_value = Some v \<rparr>
      in (key, st\<lparr>keyStorage := (keyStorage st)(ref key \<mapsto> v),
                  next_ref := Suc (next_ref st)\<rparr>))"

definition empty_registry :: Registry where
  "empty_registry = \<lparr> keyStorage = Map.empty, next_ref = 0 \<rparr>"

section \<open>Strings\<close>

text \<open>
  \<open>toLowerCase\<close> and \<open>toUpperCase\<close> of JavaScript strings, on ASCII: the 26 letters are
  mapped, every other character is kept.
\<close>

definition toLowerCase :: "string \<Rightarrow> string" where
  "toLowerCase s =
     map (\<lambda>c. case map_of (zip ''ABCDEFGHIJKLMNOPQRSTUVWXYZ'' ''abcdefghijklmnopqrstuvwxyz'') c of
                Some d \<Rightarrow> d | None \<Rightarrow> c) s"

definition toUpperCase :: "string \<Rightarrow> string" where
  "toUpperCase s =
     map (\<lambda>c. case map_of (zip ''abcdefghijklmnopqrstuvwxyz'' ''ABCDEFGHIJKLMNOPQRSTUVWXYZ'') c of
                Some d \<Rightarrow> d | None \<Rightarrow> c) s"

text \<open>\<open>s.replace("-", "")\<close>: the first hyphen is removed.\<close>

fun replace_hyphen :: "string \<Rightarrow> string" where
  "replace_hyphen [] = []"
| "replace_hyphen (c # s) = (if c = CHR ''-'' then s else c # replace_hyphen s)"

definition quoted :: "string \<Rightarrow> string" where
  "quoted s = [CHR 0x27] @ s @ [CHR 0x27]"

section \<open>Symmetric key import\<close>

text \<open>
  The key data of an import is a byte buffer (formats \<open>raw\<close>, \<open>pkcs8\<close>, \<open>spki\<close>) or a JSON
  Web Key (format \<open>jwk\<close>). The JSON codec \<open>JsonParser.fromJSON\<close> is an external library: it
  is the parameter \<open>fromJSON\<close>, which gets the target class and the JSON value and returns
  the parsed key object or throws. The TypeScript signatures exclude a JSON value under a
  binary format and a buffer under \<open>jwk\<close>; the model answers them with a \<open>TypeError\<close>.
\<close>

datatype 'j KeyData = Raw bytes | Jwk 'j

definition parse_key ::
  "(KeyClass \<Rightarrow> 'j \<Rightarrow> error + InternalCryptoKey) \<Rightarrow> KeyClass \<Rightarrow> string \<Rightarrow> 'j KeyData
     \<Rightarrow> error + InternalCryptoKey" where
  "parse_key fromJSON c format keyData =
     (if toLowerCase format = ''jwk'' then
        (case keyData of
           Jwk j \<Rightarrow> fromJSON c j
         | Raw b \<Rightarrow> Inl (TypeError ''keyData''))
      else if toLowerCase format = ''raw'' then
        (case keyData of
           Raw b \<Rightarrow> Inr ((new_key c)\<lparr>data := b\<rparr>)
         | Jwk j \<Rightarrow> Inl (TypeError ''keyData''))
      else Inl (OperationError (''format: Must be '' @ quoted ''jwk'' @ '' or '' @ quoted ''raw'')))"

text \<open>
  \<open>AesCrypto.importKey\<close>. The switch over \<open>format.toLowerCase()\<close> is \<open>parse_key\<close>; the
  bit length is \<open>key.data.length << 3\<close>, a 32-bit shift.
\<close>

definition AesCrypto_importKey ::
  "(KeyClass \<Rightarrow> 'j \<Rightarrow> error + InternalCryptoKey) \<Rightarrow> string \<Rightarrow> 'j KeyData \<Rightarrow> Algorithm
     \<Rightarrow> bool \<Rightarrow> string list \<Rightarrow> error + InternalCryptoKey" where
  "AesCrypto_importKey fromJSON format keyData alg ext keyUsages =
     (case parse_key fromJSON AesCryptoKey format keyData of
        Inl e \<Rightarrow> Inl e
      | Inr key \<Rightarrow>
          (let len = shl (int (length (data key))) 3;
               key' = key\<lparr>algorithm := Some (alg\<lparr>alg_length := Some len\<rparr>),
                          extractable := ext, usages := keyUsages\<rparr>
           in if len = 128 \<or> len = 192 \<or> len = 256 then Inr key'
              else Inl (OperationError ''keyData: Is wrong key length'')))"

text \<open>
  \<open>onImportKey\<close> of \<open>AesCbcProvider\<close>, \<open>AesCmacProvider\<close>, \<open>AesCtrProvider\<close>,
  \<open>AesGcmProvider\<close>, \<open>AesKwProvider\<close> and \<open>AesEcbProvider\<close>: the six bodies are the same.
\<close>

definition AesProvider_onImportKey ::
  "(KeyClass \<Rightarrow> 'j \<Rightarrow> error + InternalCryptoKey) \<Rightarrow> Registry \<Rightarrow> string \<Rightarrow> 'j KeyData
     \<Rightarrow> Algorithm \<Rightarrow> bool \<Rightarrow> string list \<Rightarrow> (error + Handle) \<times> Registry" where
  "AesProvider_onImportKey fromJSON st format keyData alg ext keyUsages =
     (case AesCrypto_importKey fromJSON format keyData (algorithm_named (name alg)) ext keyUsages of
        Inl e \<Rightarrow> (Inl e, st)
      | Inr key \<Rightarrow> (let (h, st') = setCryptoKey st key in (Inr h, st')))"

definition DesCrypto_importKey ::
  "(KeyClass \<Rightarrow> 'j \<Rightarrow> error + InternalCryptoKey) \<Rightarrow> string \<Rightarrow> 'j KeyData \<Rightarrow> Algorithm
     \<Rightarrow> bool \<Rightarrow> string list \<Rightarrow> error + InternalCryptoKey" where
  "DesCrypto_importKey fromJSON format keyData alg ext keyUsages =
     (case parse_key fromJSON DesCryptoKey format keyData of
        Inl e \<Rightarrow> Inl e
      | Inr key \<Rightarrow> Inr (key\<lparr>algorithm := Some alg, extractable := ext, usages := keyUsages\<rparr>))"

text \<open>
  \<open>onImportKey\<close> of a DES provider with the members \<open>name\<close> and \<open>keySizeBits\<close>; the two
  providers of the source are its instances.
\<close>

definition DesProvider_onImportKey ::
  "string \<Rightarrow> int \<Rightarrow> (KeyClass \<Rightarrow> 'j \<Rightarrow> error + InternalCryptoKey) \<Rightarrow> Registry \<Rightarrow> string
     \<Rightarrow> 'j KeyData \<Rightarrow> Algorithm \<Rightarrow> bool \<Rightarrow> string list \<Rightarrow> (error + Handle) \<times> Registry" where
  "DesProvider_onImportKey this_name keySizeBits fromJSON st format keyData alg ext keyUsages =
     (case DesCrypto_importKey fromJSON format keyData
             ((algorithm_named this_name)\<lparr>alg_length := Some keySizeBits\<rparr>) ext keyUsages of
        Inl e \<Rightarrow> (Inl e, st)
      | Inr key \<Rightarrow>
          (if int (length (data key)) \<noteq> shr keySizeBits 3
           then (Inl (OperationError ''keyData: Wrong key size''), st)
           else (let (h, st') = setCryptoKey st key in (Inr h, st'))))"

definition DesCbcProvider_onImportKey ::
  "(KeyClass \<Rightarrow> 'j \<Rightarrow> error + InternalCryptoKey) \<Rightarrow> Registry \<Rightarrow> string
     \<Rightarrow> 'j KeyData \<Rightarrow> Algorithm \<Rightarrow> bool \<Rightarrow> string list \<Rightarrow> (error + Handle) \<times> Registry" where
  "DesCbcProvider_onImportKey = DesProvider_onImportKey ''DES-CBC'' 64"

definition DesEde3CbcProvider_onImportKey ::
  "(KeyClass \<Rightarrow> 'j \<Rightarrow> error + InternalCryptoKey) \<Rightarrow> Registry \<Rightarrow> string
     \<Rightarrow> 'j KeyData \<Rightarrow> Algorithm \<Rightarrow> bool \<Rightarrow> string list \<Rightarrow> (error + Handle) \<times> Registry" where
  "DesEde3CbcProvider_onImportKey = DesProvider_onImportKey ''DES-EDE3-CBC'' 192"

section \<open>PBKDF2 and HMAC providers\<close>

text \<open>
  \<open>Pbkdf2Provider.onImportKey\<close>. The provider's \<open>name\<close> is set by webcrypto-core: it is
  the parameter \<open>this_name\<close>. The format is compared with \<open>===\<close>, without lowering.
\<close>

definition Pbkdf2Provider_onImportKey ::
  "string \<Rightarrow> Registry \<Rightarrow> string \<Rightarrow> bytes \<Rightarrow> Algorithm \<Rightarrow> bool \<Rightarrow> string list
     \<Rightarrow> (error + Handle) \<times> Registry" where
  "Pbkdf2Provider_onImportKey this_name st format keyData alg ext keyUsages =
     (if format = ''raw'' then
        (let key = (new_key PbkdfCryptoKey)
                     \<lparr>data := keyData, algorithm := Some (algorithm_named this_name),
                      extractable := False, usages := keyUsages\<rparr>;
             (h, st') = setCryptoKey st key
         in (Inr h, st'))
      else (Inl (OperationError (''format: Must be '' @ quoted ''raw'')), st))"

text \<open>
  \<open>crypto.randomBytes(size)\<close>: the engine's random source is the parameter \<open>rnd\<close>, which
  gives the bytes drawn for a size; Node throws a \<open>RangeError\<close> for a size outside
  \<open>0 .. 2^31 - 1\<close>.
\<close>

definition randomBytes :: "(nat \<Rightarrow> bytes) \<Rightarrow> int \<Rightarrow> error + bytes" where
  "randomBytes rnd n =
     (if 0 \<le> n \<and> n \<le> 2147483647 then Inr (rnd (nat n))
      else Inl (RangeError ''The value of size is out of range''))"

text \<open>
  \<open>HmacProvider.onGenerateKey\<close>. \<open>getDefaultLength\<close> is a method of webcrypto-core's
  provider: the parameter of that name, which throws for a hash it does not know. In
  \<open>algorithm.length || d\<close> a missing or zero length selects \<open>d\<close>, and \<open>d\<close> reads
  \<open>algorithm.hash.name\<close> only then.
\<close>

definition HmacProvider_onGenerateKey ::
  "string \<Rightarrow> (string \<Rightarrow> error + int) \<Rightarrow> (nat \<Rightarrow> bytes) \<Rightarrow> Registry \<Rightarrow> Algorithm \<Rightarrow> bool
     \<Rightarrow> string list \<Rightarrow> (error + Handle) \<times> Registry" where
  "HmacProvider_onGenerateKey this_name getDefaultLength rnd st alg ext keyUsages =
     (case (case alg_length alg of
              Some l \<Rightarrow> if l \<noteq> 0 then Inr l else
                 (case hash alg of None \<Rightarrow> Inl (TypeError ''hash'') | Some h \<Rightarrow> getDefaultLength h)
            | None \<Rightarrow>
                 (case hash alg of None \<Rightarrow> Inl (TypeError ''hash'') | Some h \<Rightarrow> getDefaultLength h)) of
        Inl e \<Rightarrow> (Inl e, st)
      | Inr l \<Rightarrow>
          (let len = shl (shr l 3) 3;
               key = (new_key HmacCryptoKey)
                       \<lparr>algorithm := Some (alg\<lparr>alg_length := Some len, name := this_name\<rparr>),
                        extractable := ext, usages := keyUsages\<rparr>
           in case randomBytes rnd (shr len 3) of
                Inl e \<Rightarrow> (Inl e, st)
              | Inr d \<Rightarrow> (let (h, st') = setCryptoKey st (key\<lparr>data := d\<rparr>) in (Inr h, st'))))"

section \<open>Asymmetric key generation\<close>

text \<open>
  The engine's \<open>crypto.generateKeyPairSync(type, options)\<close> is the parameter
  \<open>generateKeyPairSync\<close>: it returns the DER encodings (PKCS8 private key, SPKI public key)
  or throws.
\<close>

datatype KeyPairOptions =
    RsaOptions "int option" int
  | EcOptions string
  | NoOptions

record CryptoKeyPair =
  privateKey :: InternalCryptoKey
  publicKey :: InternalCryptoKey

definition RsaCrypto_publicKeyUsages :: "string list" where
  "RsaCrypto_publicKeyUsages = [''verify'', ''encrypt'', ''wrapKey'']"

definition RsaCrypto_privateKeyUsages :: "string list" where
  "RsaCrypto_privateKeyUsages = [''sign'', ''decrypt'', ''unwrapKey'']"

definition EcCrypto_publicKeyUsages :: "string list" where
  "EcCrypto_publicKeyUsages = [''verify'']"

definition EcCrypto_privateKeyUsages :: "string list" where
  "EcCrypto_privateKeyUsages = [''sign'', ''deriveKey'', ''deriveBits'']"

definition EdCrypto_publicKeyUsages :: "string list" where
  "EdCrypto_publicKeyUsages = [''verify'']"

definition EdCrypto_privateKeyUsages :: "string list" where
  "EdCrypto_privateKeyUsages = [''sign'', ''deriveKey'', ''deriveBits'']"

text \<open>\<open>buf.readInt32BE(0)\<close> of a four-byte buffer: big-endian, two's complement.\<close>

definition readInt32BE :: "bytes \<Rightarrow> int" where
  "readInt32BE bs = sint (word_of_nat (foldl (\<lambda>a b. a * 256 + unat b) 0 bs) :: 32 word)"

text \<open>
  \<open>RsaCrypto.generateKey\<close>. \<open>Buffer.alloc(4 - byteLength, 0)\<close> throws a \<open>RangeError\<close> for
  a public exponent longer than four bytes; reading \<open>byteLength\<close> of a missing exponent
  throws a \<open>TypeError\<close>.
\<close>

definition RsaCrypto_generateKey ::
  "(string \<Rightarrow> KeyPairOptions \<Rightarrow> error + bytes \<times> bytes) \<Rightarrow> Algorithm \<Rightarrow> bool \<Rightarrow> string list
     \<Rightarrow> error + CryptoKeyPair" where
  "RsaCrypto_generateKey generateKeyPairSync alg ext keyUsages =
     (let priv = (new_key RsaPrivateKey)
                   \<lparr>algorithm := Some alg, extractable := ext,
                    usages := filter (\<lambda>usage. usage \<in> set RsaCrypto_privateKeyUsages) keyUsages\<rparr>;
          pub = (new_key RsaPublicKey)
                   \<lparr>algorithm := Some alg, extractable := True,
                    usages := filter (\<lambda>usage. usage \<in> set RsaCrypto_publicKeyUsages) keyUsages\<rparr>
      in case publicExponent alg of
           None \<Rightarrow> Inl (TypeError ''publicExponent'')
         | Some e \<Rightarrow>
             (if 4 < length e then Inl (RangeError ''The value of size is out of range'')
              else
                (case generateKeyPairSync ''rsa''
                        (RsaOptions (modulusLength alg)
                           (readInt32BE (replicate (4 - length e) 0 @ e))) of
                   Inl err \<Rightarrow> Inl err
                 | Inr (privDer, pubDer) \<Rightarrow>
                     Inr \<lparr> privateKey = priv\<lparr>data := privDer\<rparr>,
                           publicKey = pub\<lparr>data := pubDer\<rparr> \<rparr>)))"

definition EcCrypto_getOpenSSLNamedCurve :: "string \<Rightarrow> error + string" where
  "EcCrypto_getOpenSSLNamedCurve curve =
     (if toUpperCase curve = ''P-256'' then Inr ''prime256v1''
      else if toUpperCase curve = ''K-256'' then Inr ''secp256k1''
      else if toUpperCase curve = ''P-384'' then Inr ''secp384r1''
      else if toUpperCase curve = ''P-521'' then Inr ''secp521r1''
      else Inl (OperationError
             (''Cannot convert WebCrypto named curve to NodeJs. Unknown name '' @ quoted curve)))"

definition EcCrypto_generateKey ::
  "(string \<Rightarrow> KeyPairOptions \<Rightarrow> error + bytes \<times> bytes) \<Rightarrow> Algorithm \<Rightarrow> bool \<Rightarrow> string list
     \<Rightarrow> error + CryptoKeyPair" where
  "EcCrypto_generateKey generateKeyPairSync alg ext keyUsages =
     (let priv = (new_key EcPrivateKey)
                   \<lparr>algorithm := Some alg, extractable := ext,
                    usages := filter (\<lambda>usage. usage \<in> set EcCrypto_privateKeyUsages) keyUsages\<rparr>;
          pub = (new_key EcPublicKey)
                   \<lparr>algorithm := Some alg, extractable := True,
                    usages := filter (\<lambda>usage. usage \<in> set EcCrypto_publicKeyUsages) keyUsages\<rparr>
      in case namedCurve alg of
           None \<Rightarrow> Inl (TypeError ''namedCurve'')
         | Some curve \<Rightarrow>
             (case EcCrypto_getOpenSSLNamedCurve curve of
                Inl err \<Rightarrow> Inl err
              | Inr c \<Rightarrow>
                  (case generateKeyPairSync ''ec'' (EcOptions c) of
                     Inl err \<Rightarrow> Inl err
                   | Inr (privDer, pubDer) \<Rightarrow>
                       Inr \<lparr> privateKey = priv\<lparr>data := privDer\<rparr>,
                             publicKey = pub\<lparr>data := pubDer\<rparr> \<rparr>)))"

definition EdCrypto_generateKey ::
  "(string \<Rightarrow> KeyPairOptions \<Rightarrow> error + bytes \<times> bytes) \<Rightarrow> Algorithm \<Rightarrow> bool \<Rightarrow> string list
     \<Rightarrow> error + CryptoKeyPair" where
  "EdCrypto_generateKey generateKeyPairSync alg ext keyUsages =
     (let priv = (new_key EdPrivateKey)
                   \<lparr>algorithm := Some alg, extractable := ext,
                    usages := filter (\<lambda>usage. usage \<in> set EdCrypto_privateKeyUsages) keyUsages\<rparr>;
          pub = (new_key EdPublicKey)
                   \<lparr>algorithm := Some alg, extractable := True,
                    usages := filter (\<lambda>usage. usage \<in> set EdCrypto_publicKeyUsages) keyUsages\<rparr>
      in case namedCurve alg of
           None \<Rightarrow> Inl (TypeError ''namedCurve'')
         | Some curve \<Rightarrow>
             (case generateKeyPairSync (toLowerCase curve) NoOptions of
                Inl err \<Rightarrow> Inl err
              | Inr (privDer, pubDer) \<Rightarrow>
                  Inr \<lparr> privateKey = priv\<lparr>data := privDer\<rparr>,
                        publicKey = pub\<lparr>data := pubDer\<rparr> \<rparr>))"

text \<open>
  \<open>onGenerateKey\<close> of the RSA providers (\<open>RsaSsaProvider\<close>, \<open>RsaPssProvider\<close>,
  \<open>RsaOaepProvider\<close>, \<open>RsaEsProvider\<close>) and of the EC providers (\<open>EcdsaProvider\<close>,
  \<open>EcdhProvider\<close>): the algorithm gets the provider's name, the private key is registered
  first, then the public key.
\<close>

definition register_pair ::
  "Registry \<Rightarrow> error + CryptoKeyPair \<Rightarrow> (error + Handle \<times> Handle) \<times> Registry" where
  "register_pair st keys =
     (case keys of
        Inl e \<Rightarrow> (Inl e, st)
      | Inr ks \<Rightarrow>
          (let (priv, st1) = setCryptoKey st (privateKey ks);
               (pub, st2) = setCryptoKey st1 (publicKey ks)
           in (Inr (priv, pub), st2)))"

definition RsaProvider_onGenerateKey ::
  "string \<Rightarrow> (string \<Rightarrow> KeyPairOptions \<Rightarrow> error + bytes \<times> bytes) \<Rightarrow> Registry \<Rightarrow> Algorithm
     \<Rightarrow> bool \<Rightarrow> string list \<Rightarrow> (error + Handle \<times> Handle) \<times> Registry" where
  "RsaProvider_onGenerateKey this_name generateKeyPairSync st alg ext keyUsages =
     register_pair st
       (RsaCrypto_generateKey generateKeyPairSync (alg\<lparr>name := this_name\<rparr>) ext keyUsages)"

definition EcProvider_onGenerateKey ::
  "string \<Rightarrow> (string \<Rightarrow> KeyPairOptions \<Rightarrow> error + bytes \<times> bytes) \<Rightarrow> Registry \<Rightarrow> Algorithm
     \<Rightarrow> bool \<Rightarrow> string list \<Rightarrow> (error + Handle \<times> Handle) \<times> Registry" where
  "EcProvider_onGenerateKey this_name generateKeyPairSync st alg ext keyUsages =
     register_pair st
       (EcCrypto_generateKey generateKeyPairSync (alg\<lparr>name := this_name\<rparr>) ext keyUsages)"

section \<open>ECDSA verification\<close>

text \<open>
  The PEM text of a key is cached on the key object: \<open>if (!key.pem) key.pem = ...\<close>.
  \<open>base64\<close> is the engine's \<open>toString("base64")\<close>, \<open>kind\<close> is \<open>PUBLIC\<close> or \<open>PRIVATE\<close>.
\<close>

definition with_pem :: "(bytes \<Rightarrow> string) \<Rightarrow> string \<Rightarrow> InternalCryptoKey \<Rightarrow> InternalCryptoKey" where
  "with_pem base64 kind key =
     (case pem key of
        Some p \<Rightarrow> (if p = [] then
            key\<lparr>pem := Some (''-----BEGIN '' @ kind @ '' KEY-----'' @ [CHR 0x0A] @ base64 (data key)
                     @ [CHR 0x0A] @ ''-----END '' @ kind @ '' KEY-----'')\<rparr>
          else key)
      | None \<Rightarrow>
          key\<lparr>pem := Some (''-----BEGIN '' @ kind @ '' KEY-----'' @ [CHR 0x0A] @ base64 (data key)
                     @ [CHR 0x0A] @ ''-----END '' @ kind @ '' KEY-----'')\<rparr>)"

definition EcCrypto_getPointSize :: "string \<Rightarrow> error + nat" where
  "EcCrypto_getPointSize curve =
     (if curve = ''P-256'' \<or> curve = ''K-256'' then Inr 32
      else if curve = ''P-384'' then Inr 48
      else if curve = ''P-521'' then Inr 66
      else Inl (Error (''Cannot get size for the named curve '' @ quoted curve)))"

text \<open>
  \<open>EcCrypto.removePadding\<close>: the loop skips zero bytes and returns the rest from the
  first non-zero byte on, the empty buffer when there is none.
\<close>

fun EcCrypto_removePadding :: "bytes \<Rightarrow> bytes" where
  "EcCrypto_removePadding [] = []"
| "EcCrypto_removePadding (b # bs) = (if b = 0 then EcCrypto_removePadding bs else b # bs)"

text \<open>
  \<open>bytes.slice(start, end)\<close> for \<open>0 \<le> start \<le> end\<close>: both bounds are clamped to the
  length.
\<close>

definition slice_bytes :: "bytes \<Rightarrow> nat \<Rightarrow> nat \<Rightarrow> bytes" where
  "slice_bytes bs start end = take (end - start) (drop start bs)"

text \<open>
  \<open>EcCrypto.verify\<close>. External parts, as parameters: \<open>serialize\<close> is
  \<open>AsnSerializer.serialize\<close> of an \<open>EcDsaSignature\<close> with the members \<open>r\<close> and \<open>s\<close>;
  \<open>createVerify\<close> is the engine's \<open>crypto.createVerify(cryptoAlg)\<close>, which throws or
  returns a verifier \<open>v\<close> with \<open>v pem data sig\<close> for
  \<open>update(data)\<close> and \<open>verify({key: pem}, sig)\<close>. The second component of the result is
  the key object after the call (its PEM cache is filled before the point size is looked
  up).
\<close>

definition EcCrypto_verify ::
  "(bytes \<Rightarrow> string) \<Rightarrow> (bytes \<Rightarrow> bytes \<Rightarrow> bytes)
     \<Rightarrow> (string \<Rightarrow> error + (string \<Rightarrow> bytes \<Rightarrow> bytes \<Rightarrow> error + bool))
     \<Rightarrow> Algorithm \<Rightarrow> InternalCryptoKey \<Rightarrow> bytes \<Rightarrow> bytes \<Rightarrow> (error + bool) \<times> InternalCryptoKey" where
  "EcCrypto_verify base64 serialize createVerify alg key signature msg =
     (case (case hash alg of None \<Rightarrow> Inl (TypeError ''hash'') | Some h \<Rightarrow> createVerify (replace_hyphen h)) of
        Inl e \<Rightarrow> (Inl e, key)
      | Inr signer \<Rightarrow>
          (let key' = with_pem base64 ''PUBLIC'' key
           in case (case algorithm key' of
                      None \<Rightarrow> Inl (TypeError ''algorithm'')
                    | Some a \<Rightarrow>
                        (case namedCurve a of
                           None \<Rightarrow> EcCrypto_getPointSize ''undefined''
                         | Some c \<Rightarrow> EcCrypto_getPointSize c)) of
                Inl e \<Rightarrow> (Inl e, key')
              | Inr pointSize \<Rightarrow>
                  (let r = EcCrypto_removePadding (slice_bytes signature 0 pointSize);
                       s = EcCrypto_removePadding (slice_bytes signature pointSize (pointSize + pointSize));
                       ecSignatureRaw = serialize r s
                   in (signer (the (pem key')) msg ecSignatureRaw, key'))))"

text \<open>\<open>EcdsaProvider.onVerify\<close>: the handle is resolved, the key object's cache is written back.\<close>

definition EcdsaProvider_onVerify ::
  "(bytes \<Rightarrow> string) \<Rightarrow> (bytes \<Rightarrow> bytes \<Rightarrow> bytes)
     \<Rightarrow> (string \<Rightarrow> error + (string \<Rightarrow> bytes \<Rightarrow> bytes \<Rightarrow> error + bool))
     \<Rightarrow> Registry \<Rightarrow> Algorithm \<Rightarrow> Handle \<Rightarrow> bytes \<Rightarrow> bytes \<Rightarrow> (error + bool) \<times> Registry" where
  "EcdsaProvider_onVerify base64 serialize createVerify st alg key signature msg =
     (case getCryptoKey st key of
        (Inl e, st1) \<Rightarrow> (Inl e, st1)
      | (Inr k, st1) \<Rightarrow>
          (let (res, k') = EcCrypto_verify base64 serialize createVerify alg k signature msg
           in (res, st1\<lparr>keyStorage := (keyStorage st1)(ref key \<mapsto> k')\<rparr>)))"

section \<open>RSA-OAEP decryption\<close>

definition ShaCrypto_size :: "string \<Rightarrow> error + int" where
  "ShaCrypto_size n =
     (if toUpperCase n = ''SHA-1'' then Inr 160
      else if toUpperCase n = ''SHA-256'' then Inr 256
      else if toUpperCase n = ''SHA-384'' then Inr 384
      else if toUpperCase n = ''SHA-512'' then Inr 512
      else Inl (Error ''Unrecognized name''))"

text \<open>
  \<open>a[i] ^= m[i]\<close> for every index of \<open>a\<close>; the mask is at least as long wherever the
  source does this (a missing mask byte would read as 0).
\<close>

definition xor_mask :: "bytes \<Rightarrow> bytes \<Rightarrow> bytes" where
  "xor_mask a m = map (\<lambda>i. (a ! i) XOR (if i < length m then m ! i else 0)) [0..<length a]"

text \<open>
  \<open>submask.set(chunk)\<close> for \<open>submask = mask.subarray(off)\<close>, after the chunk has been cut
  to the length of \<open>submask\<close>: the chunk overwrites the mask from \<open>off\<close> on.
\<close>

definition set_at :: "bytes \<Rightarrow> nat \<Rightarrow> bytes \<Rightarrow> bytes" where
  "set_at msk off chunk =
     (let chunk' = take (length msk - off) chunk
      in take off msk @ chunk' @ drop (off + length chunk') msk)"

text \<open>
  \<open>RsaOaepProvider.mgf1\<close>. \<open>H\<close> is the engine's hash:
  \<open>crypto.createHash(name).update(a).update(b).digest()\<close> is \<open>H name (a @ b)\<close>. The loop
  runs \<open>chunks\<close> times; \<open>mgf1_loop\<close> takes the number of rounds left and the index.
\<close>

definition counter_bytes :: "nat \<Rightarrow> bytes" where
  "counter_bytes i = [of_nat (i div 2 ^ 24), of_nat (i div 2 ^ 16), of_nat (i div 2 ^ 8), of_nat i]"

fun mgf1_loop :: "(string \<Rightarrow> bytes \<Rightarrow> bytes) \<Rightarrow> string \<Rightarrow> bytes \<Rightarrow> nat \<Rightarrow> nat \<Rightarrow> nat \<Rightarrow> bytes \<Rightarrow> bytes" where
  "mgf1_loop H hname seed hashSize 0 i msk = msk"
| "mgf1_loop H hname seed hashSize (Suc n) i msk =
     mgf1_loop H hname seed hashSize n (Suc i)
       (set_at msk (i * hashSize) (H (replace_hyphen hname) (seed @ counter_bytes i)))"

definition mgf1 :: "(string \<Rightarrow> bytes \<Rightarrow> bytes) \<Rightarrow> string \<Rightarrow> bytes \<Rightarrow> nat \<Rightarrow> error + bytes" where
  "mgf1 H hname seed len =
     (case ShaCrypto_size hname of
        Inl e \<Rightarrow> Inl e
      | Inr bits \<Rightarrow>
          (let hashSize = nat (shr bits 3);
               chunks = (len + hashSize - 1) div hashSize
           in Inr (mgf1_loop H hname seed hashSize chunks 0 (replicate len 0))))"

text \<open>
  The two scans of \<open>onDecrypt\<close> over the unmasked data block. \<open>labelHash_differs\<close> is the
  loop over \<open>i < hashSize\<close> that throws at the first \<open>labelHash[i] !== dataBlock[i]\<close>
  (an index past the end of either reads \<open>undefined\<close>). \<open>find_psEnd\<close> is the loop from
  \<open>psEnd = hashSize\<close>: \<open>Inr\<close> the index where it stops (the length of the block when no
  byte 1 was found), \<open>Inl\<close> when it throws at a byte that is neither 0 nor 1.
\<close>

definition byte_at :: "bytes \<Rightarrow> nat \<Rightarrow> byte option" where
  "byte_at bs i = (if i < length bs then Some (bs ! i) else None)"

definition labelHash_differs :: "bytes \<Rightarrow> bytes \<Rightarrow> nat \<Rightarrow> bool" where
  "labelHash_differs labelHash dataBlock hashSize =
     list_ex (\<lambda>i. byte_at labelHash i \<noteq> byte_at dataBlock i) [0..<hashSize]"

fun find_psEnd :: "bytes \<Rightarrow> nat \<Rightarrow> nat \<Rightarrow> error + nat" where
  "find_psEnd dataBlock 0 psEnd = Inr psEnd"
| "find_psEnd dataBlock (Suc n) psEnd =
     (if dataBlock ! psEnd = 1 then Inr psEnd
      else if dataBlock ! psEnd \<noteq> 0 then Inl (Error ''Decryption failed'')
      else find_psEnd dataBlock n (Suc psEnd))"

text \<open>
  \<open>RsaOaepProvider.onDecrypt\<close>, in two parts. \<open>oaep_unpad\<close> is the body from
  \<open>const z = pkcs0[0]\<close> to the end: it works on the block \<open>pkcs0\<close> that the engine
  returned. \<open>RsaOaepProvider_onDecrypt\<close> is the whole method: \<open>privateDecrypt\<close> is the
  engine's \<open>crypto.privateDecrypt({key: pem, padding: RSA_NO_PADDING}, data)\<close>, \<open>label\<close>
  is \<open>algorithm.label\<close>. A missing \<open>modulusLength\<close> shifts as 0. The key object with its
  PEM cache is written back to the registry.
\<close>

definition oaep_unpad ::
  "(string \<Rightarrow> bytes \<Rightarrow> bytes) \<Rightarrow> string \<Rightarrow> nat \<Rightarrow> bytes option \<Rightarrow> bytes \<Rightarrow> error + bytes" where
  "oaep_unpad H hname hashSize label pkcs0 =
     (let z = byte_at pkcs0 0;
          seed = slice_bytes pkcs0 1 (hashSize + 1);
          dataBlock = drop (hashSize + 1) pkcs0
      in if z \<noteq> Some 0 then Inl (Error ''Decryption failed'')
         else
           case mgf1 H hname dataBlock (length seed) of
             Inl e \<Rightarrow> Inl e
           | Inr seedMask \<Rightarrow>
               (let seed' = xor_mask seed seedMask
                in case mgf1 H hname seed' (length dataBlock) of
                     Inl e \<Rightarrow> Inl e
                   | Inr dataBlockMask \<Rightarrow>
                       (let dataBlock' = xor_mask dataBlock dataBlockMask;
                            labelHash = H (replace_hyphen hname)
                                          (case label of None \<Rightarrow> [] | Some l \<Rightarrow> l)
                        in if labelHash_differs labelHash dataBlock' hashSize
                           then Inl (Error ''Decryption failed'')
                           else
                             case find_psEnd dataBlock' (length dataBlock' - hashSize) hashSize of
                               Inl e \<Rightarrow> Inl e
                             | Inr psEnd \<Rightarrow>
                                 if psEnd = length dataBlock'
                                 then Inl (Error ''Decryption failed'')
                                 else Inr (drop (psEnd + 1) dataBlock'))))"

definition RsaOaepProvider_onDecrypt ::
  "(bytes \<Rightarrow> string) \<Rightarrow> (string \<Rightarrow> bytes \<Rightarrow> bytes) \<Rightarrow> (string \<Rightarrow> bytes \<Rightarrow> error + bytes)
     \<Rightarrow> Registry \<Rightarrow> bytes option \<Rightarrow> Handle \<Rightarrow> bytes \<Rightarrow> (error + bytes) \<times> Registry" where
  "RsaOaepProvider_onDecrypt base64 H privateDecrypt st label key input =
     (case getCryptoKey st key of
        (Inl e, st1) \<Rightarrow> (Inl e, st1)
      | (Inr internalKey, st1) \<Rightarrow>
          (case algorithm internalKey of
             None \<Rightarrow> (Inl (TypeError ''algorithm''), st1)
           | Some a \<Rightarrow>
               (let keySize = shr (case modulusLength a of None \<Rightarrow> 0 | Some n \<Rightarrow> n) 3
                in case hash a of
                     None \<Rightarrow> (Inl (TypeError ''hash''), st1)
                   | Some hname \<Rightarrow>
                       (case ShaCrypto_size hname of
                          Inl e \<Rightarrow> (Inl e, st1)
                        | Inr bits \<Rightarrow>
                            (if int (length input) \<noteq> keySize then (Inl (Error ''Bad data''), st1)
                             else
                               (let internalKey' = with_pem base64 ''PRIVATE'' internalKey;
                                    st2 = st1\<lparr>keyStorage := (keyStorage st1)(ref key \<mapsto> internalKey')\<rparr>
                                in case privateDecrypt (the (pem internalKey')) input of
                                     Inl e \<Rightarrow> (Inl e, st2)
                                   | Inr pkcs0 \<Rightarrow>
                                       (oaep_unpad H hname (nat (shr bits 3)) label pkcs0, st2)))))))"

section \<open>HKDF\<close>




text \<open>
  The block that round \<open>i\<close> of the loop pushes, as a function of \<open>i\<close>: the loop reads the
  block of the round before and appends the low eight bits of \<open>i\<close>.
\<close>

primrec hkdf_block :: "(bytes \<Rightarrow> bytes \<Rightarrow> bytes) \<Rightarrow> bytes \<Rightarrow> bytes \<Rightarrow> nat \<Rightarrow> bytes" where
  "hkdf_block hmac PRK info' 0 = []"
| "hkdf_block hmac PRK info' (Suc i) =
     hmac PRK (hkdf_block hmac PRK info' i @ info' @ [of_nat (Suc i)])"




section \<open>AES-CMAC\<close>

definition zero :: bytes where
  "zero = [0, 0, 0, 0, 0, 0, 0, 0, 0, 0, 0, 0, 0, 0, 0, 0]"

definition rb :: bytes where
  "rb = [0, 0, 0, 0, 0, 0, 0, 0, 0, 0, 0, 0, 0, 0, 0, 135]"

definition blockSize :: nat where
  "blockSize = 16"

text \<open>
  \<open>bitShiftLeft\<close>: the loop writes \<open>shifted[index]\<close> for every \<open>index < last\<close> from
  \<open>buffer[index]\<close> and \<open>buffer[index + 1]\<close>, the last statement writes \<open>shifted[last]\<close>;
  a byte array keeps the low eight bits of what is stored.
\<close>

definition bitShiftLeft :: "bytes \<Rightarrow> bytes" where
  "bitShiftLeft buffer =
     map (\<lambda>index.
            if index + 1 < length buffer
            then push_bit 1 (buffer ! index)
                 + (if (buffer ! (index + 1)) AND 0x80 \<noteq> 0 then 1 else 0)
            else push_bit 1 (buffer ! index))
         [0..<length buffer]"

definition xor_bytes :: "bytes \<Rightarrow> bytes \<Rightarrow> bytes" where
  "xor_bytes a b = map (\<lambda>index. (a ! index) XOR (b ! index)) [0..<min (length a) (length b)]"

text \<open>
  \<open>aes(key, message)\<close>: \<open>crypto.createCipheriv("aes" + (key.length << 3), key, zero)\<close>
  throws unless the key has 16, 24 or 32 bytes (no such cipher, or a key of the wrong
  length for it); \<open>cipher.update(message)\<close> of a 16-byte message under CBC with the zero
  IV is the block cipher applied to the message, the parameter \<open>E\<close>.
\<close>

definition aes :: "(bytes \<Rightarrow> bytes \<Rightarrow> bytes) \<Rightarrow> bytes \<Rightarrow> bytes \<Rightarrow> error + bytes" where
  "aes E key message =
     (if length key = 16 \<or> length key = 24 \<or> length key = 32 then Inr (E key message)
      else Inl (EngineError ''createCipheriv''))"

definition getMessageBlock :: "bytes \<Rightarrow> nat \<Rightarrow> bytes" where
  "getMessageBlock message blockIndex =
     (let start = blockIndex * blockSize;
          end = start + blockSize;
          copied = slice_bytes message start end
      in copied @ replicate (blockSize - length copied) 0)"

definition getPaddedMessageBlock :: "bytes \<Rightarrow> nat \<Rightarrow> bytes" where
  "getPaddedMessageBlock message blockIndex =
     (let start = blockIndex * blockSize;
          end = length message;
          copied = take blockSize (slice_bytes message start end);
          block = copied @ replicate (blockSize - length copied) 0
      in if start \<le> end then block[end - start := 0x80] else block)"

definition generateSubkeys :: "(bytes \<Rightarrow> bytes \<Rightarrow> bytes) \<Rightarrow> bytes \<Rightarrow> error + bytes \<times> bytes" where
  "generateSubkeys E key =
     (case aes E key zero of
        Inl e \<Rightarrow> Inl e
      | Inr l \<Rightarrow>
          (let subkey1 = bitShiftLeft l;
               subkey1 = (if l \<noteq> [] \<and> (l ! 0) AND 0x80 \<noteq> 0 then xor_bytes subkey1 rb else subkey1);
               subkey2 = bitShiftLeft subkey1;
               subkey2 = (if subkey1 \<noteq> [] \<and> (subkey1 ! 0) AND 0x80 \<noteq> 0
                          then xor_bytes subkey2 rb else subkey2)
           in Inr (subkey1, subkey2)))"

text \<open>The \<open>for\<close> loop of \<open>aesCmac\<close>: the number of rounds left, the index, and \<open>x\<close>.\<close>

fun aesCmac_loop :: "(bytes \<Rightarrow> bytes \<Rightarrow> bytes) \<Rightarrow> bytes \<Rightarrow> bytes \<Rightarrow> nat \<Rightarrow> nat \<Rightarrow> bytes \<Rightarrow> error + bytes" where
  "aesCmac_loop E key message 0 index x = Inr x"
| "aesCmac_loop E key message (Suc n) index x =
     (case aes E key (xor_bytes x (getMessageBlock message index)) of
        Inl e \<Rightarrow> Inl e
      | Inr x' \<Rightarrow> aesCmac_loop E key message n (Suc index) x')"

definition aesCmac :: "(bytes \<Rightarrow> bytes \<Rightarrow> bytes) \<Rightarrow> bytes \<Rightarrow> bytes \<Rightarrow> error + bytes" where
  "aesCmac E key message =
     (case generateSubkeys E key of
        Inl e \<Rightarrow> Inl e
      | Inr (subkey1, subkey2) \<Rightarrow>
          (let blockCount0 = (length message + blockSize - 1) div blockSize;
               blockCount = (if blockCount0 = 0 then 1 else blockCount0);
               lastBlockCompleteFlag =
                 (if blockCount0 = 0 then False else length message mod blockSize = 0);
               lastBlockIndex = blockCount - 1;
               lastBlock =
                 (if lastBlockCompleteFlag
                  then xor_bytes (getMessageBlock message lastBlockIndex) subkey1
                  else xor_bytes (getPaddedMessageBlock message lastBlockIndex) subkey2)
           in case aesCmac_loop E key message lastBlockIndex 0 zero of
                Inl e \<Rightarrow> Inl e
              | Inr x \<Rightarrow> aes E key (xor_bytes lastBlock x)))"

definition AesCmacProvider_onSign ::
  "(bytes \<Rightarrow> bytes \<Rightarrow> bytes) \<Rightarrow> Registry \<Rightarrow> Handle \<Rightarrow> bytes \<Rightarrow> (error + bytes) \<times> Registry" where
  "AesCmacProvider_onSign E st key msg =
     (case getCryptoKey st key of
        (Inl e, st1) \<Rightarrow> (Inl e, st1)
      | (Inr k, st1) \<Rightarrow> (aesCmac E (data k) msg, st1))"

text \<open>
  The specification's AES-CMAC, in its words and on bit strings. A block is a string of
  128 bits, most significant bit first; \<open>leftshift1\<close> drops the top bit and appends a
  zero bit; the constant \<open>0x...87\<close> is 120 zero bits followed by the byte \<open>0x87\<close>.
\<close>

definition bits_of_byte :: "byte \<Rightarrow> bool list" where
  "bits_of_byte b = [bit b 7, bit b 6, bit b 5, bit b 4, bit b 3, bit b 2, bit b 1, bit b 0]"

definition byte_of_bits :: "bool list \<Rightarrow> byte" where
  "byte_of_bits bs = foldl (\<lambda>w b. push_bit 1 w + of_bool b) 0 bs"

definition bits_of_bytes :: "bytes \<Rightarrow> bool list" where
  "bits_of_bytes bs = concat (map bits_of_byte bs)"

fun bytes_of_bits :: "bool list \<Rightarrow> bytes" where
  "bytes_of_bits (b7 # b6 # b5 # b4 # b3 # b2 # b1 # b0 # bs) =
     byte_of_bits [b7, b6, b5, b4, b3, b2, b1, b0] # bytes_of_bits bs"
| "bytes_of_bits bs = []"

definition spec_leftshift1 :: "bytes \<Rightarrow> bytes" where
  "spec_leftshift1 l = bytes_of_bits (tl (bits_of_bytes l) @ [False])"

definition spec_xor :: "bytes \<Rightarrow> bytes \<Rightarrow> bytes" where
  "spec_xor a b = map2 (XOR) a b"

definition spec_subkey :: "bytes \<Rightarrow> bytes" where
  "spec_subkey l =
     (if hd (bits_of_bytes l) then spec_xor (spec_leftshift1 l) (replicate 15 0 @ [0x87])
      else spec_leftshift1 l)"

text \<open>
  The message in 16-byte blocks, the last one possibly shorter; the empty message is one
  empty block.
\<close>

function spec_blocks :: "bytes \<Rightarrow> bytes list" where
  "spec_blocks m = (if length m \<le> 16 then [m] else take 16 m # spec_blocks (drop 16 m))"
  by pat_completeness auto
termination
  by (relation "measure length") auto

definition spec_final_block :: "bytes \<Rightarrow> bytes \<Rightarrow> bytes \<Rightarrow> bytes" where
  "spec_final_block b subkey1 subkey2 =
     (if length b = 16 then spec_xor b subkey1
      else spec_xor (b @ [0x80] @ replicate (15 - length b) 0) subkey2)"

definition spec_cbc :: "(bytes \<Rightarrow> bytes \<Rightarrow> bytes) \<Rightarrow> bytes \<Rightarrow> bytes list \<Rightarrow> bytes" where
  "spec_cbc E key bs = foldl (\<lambda>x b. E key (spec_xor x b)) (replicate 16 0) bs"

definition spec_cmac :: "(bytes \<Rightarrow> bytes \<Rightarrow> bytes) \<Rightarrow> bytes \<Rightarrow> bytes \<Rightarrow> bytes" where
  "spec_cmac E key m =
     (let l = E key (replicate 16 0);
          subkey1 = spec_subkey l;
          subkey2 = spec_subkey subkey1;
          bs = spec_blocks m
      in spec_cbc E key (butlast bs @ [spec_final_block (last bs) subkey1 subkey2]))"

section \<open>Properties of the registry\<close>

lemma setCryptoKey_handle:
  "fst (setCryptoKey st v) =
     \<lparr> algorithm = algorithm v, key_type = key_type v, extractable = extractable v,
       usages = usages v, ref = next_ref st, dunder_value = Some v \<rparr>"
  by (simp add: setCryptoKey_def Let_def)

lemma setCryptoKey_storage:
  "keyStorage (snd (setCryptoKey st v)) = (keyStorage st)(next_ref st \<mapsto> v)"
  by (simp add: setCryptoKey_def Let_def)

text \<open>
  C1, as stated: the handle that \<open>setCryptoKey\<close> returns carries the key material on none of
  its own fields. The code stores the material on the handle's member \<open>__value\<close>, so the
  statement fails for the freshly constructed AES key.
\<close>

theorem C1_handle_carries_material:
  "dunder_value (fst (setCryptoKey empty_registry (new_key AesCryptoKey)))
     = Some (new_key AesCryptoKey)"
  by (simp add: setCryptoKey_handle)

text \<open>
  C1, amended: for every key material \<open>v\<close>, the handle returned by \<open>setCryptoKey\<close> carries
  \<open>v\<close> itself on its member \<open>__value\<close> and copies of \<open>v\<close>'s algorithm, type, extractable flag
  and usages on its other members, and the registry maps the handle to \<open>v\<close>.
\<close>

theorem C1_setCryptoKey_embeds_and_registers:
  "dunder_value (fst (setCryptoKey st v)) = Some v \<and>
   keyStorage (snd (setCryptoKey st v)) (ref (fst (setCryptoKey st v))) = Some v \<and>
   algorithm (fst (setCryptoKey st v)) = algorithm v \<and>
   key_type (fst (setCryptoKey st v)) = key_type v \<and>
   extractable (fst (setCryptoKey st v)) = extractable v \<and>
   usages (fst (setCryptoKey st v)) = usages v"
  by (simp add: setCryptoKey_handle setCryptoKey_storage)

text \<open>
  C3, as stated: a handle with neither a registry entry nor an embedded copy fails with the
  error "key not found in secure storage". The code throws an \<open>OperationError\<close> with another
  message.
\<close>

theorem C3_error_message_differs:
  "fst (getCryptoKey empty_registry
          \<lparr> algorithm = None, key_type = Secret, extractable = False, usages = [],
            ref = 0, dunder_value = None \<rparr>)
     = Inl (OperationError ''Cannot get CryptoKey from secure storage'') \<and>
   fst (getCryptoKey empty_registry
          \<lparr> algorithm = None, key_type = Secret, extractable = False, usages = [],
            ref = 0, dunder_value = None \<rparr>)
     \<noteq> Inl (OperationError ''key not found in secure storage'')"
  by (simp add: getCryptoKey_def empty_registry_def)

text \<open>
  C3, amended: \<open>getCryptoKey\<close> returns the registered key material of the handle; if the
  handle has no registry entry but carries an embedded copy on \<open>__value\<close>, that copy is
  inserted into the registry as it is and returned; in both cases the handle's algorithm
  descriptor is first copied onto a material that has none. If neither exists it fails with
  the \<open>OperationError\<close> "Cannot get CryptoKey from secure storage" and leaves the registry
  unchanged. After a successful call the registry maps the handle to the returned material.
\<close>

theorem C3_getCryptoKey_resolves:
  "fst (getCryptoKey st key) =
     (case keyStorage st (ref key) of
        Some m \<Rightarrow>
          Inr (if algorithm m = None \<and> algorithm key \<noteq> None
               then m\<lparr>algorithm := algorithm key\<rparr> else m)
      | None \<Rightarrow>
          (case dunder_value key of
             Some v \<Rightarrow>
               Inr (if algorithm v = None \<and> algorithm key \<noteq> None
                    then v\<lparr>algorithm := algorithm key\<rparr> else v)
           | None \<Rightarrow> Inl (OperationError ''Cannot get CryptoKey from secure storage''))) \<and>
   keyStorage (snd (getCryptoKey st key)) (ref key) =
     (case fst (getCryptoKey st key) of Inr m \<Rightarrow> Some m | Inl e \<Rightarrow> None) \<and>
   (case fst (getCryptoKey st key) of Inr m \<Rightarrow> True | Inl e \<Rightarrow> snd (getCryptoKey st key) = st)"
  by (simp add: getCryptoKey_def Let_def split: option.split)

section \<open>Properties of the 32-bit shifts\<close>

lemma sint_32_in_range:
  assumes "- 2147483648 \<le> (x::int)" "x < 2147483648"
  shows "sint (word_of_int x :: 32 word) = x"
  using assms by (simp add: sint_sbintrunc' signed_take_bit_int_eq_self)

lemma shr_eq_div:
  assumes "- 2147483648 \<le> (x::int)" "x < 2147483648"
  shows "shr x 3 = x div 8"
  using assms by (simp add: shr_def sint_signed_drop_bit_eq sint_32_in_range drop_bit_eq_div)

lemma shl_eq_mult:
  assumes "- 268435456 \<le> (x::int)" "x < 268435456"
  shows "shl x 3 = 8 * x"
proof -
  have a: "push_bit 3 (word_of_int x :: 32 word) = word_of_int (8 * x)"
    by (simp add: push_bit_eq_mult)
  have b: "sint (word_of_int (8 * x) :: 32 word) = 8 * x"
    using assms by (intro sint_32_in_range) auto
  show ?thesis
    unfolding shl_def a b ..
qed

lemma shr_shl_round:
  assumes "0 \<le> l" "l < 2147483648"
  shows "shl (shr l 3) 3 = 8 * (l div 8)" "shr (shl (shr l 3) 3) 3 = l div 8"
proof -
  have a: "shr l 3 = l div 8" using assms by (simp add: shr_eq_div)
  have b: "0 \<le> l div 8" "l div 8 < 268435456" using assms by auto
  show c: "shl (shr l 3) 3 = 8 * (l div 8)" using a b by (simp add: shl_eq_mult)
  have "8 * (l div 8) \<le> l" by simp
  then have "shr (8 * (l div 8)) 3 = (8 * (l div 8)) div 8"
    using assms b by (intro shr_eq_div) auto
  then show "shr (shl (shr l 3) 3) 3 = l div 8" using c by simp
qed

section \<open>Properties of key import and generation\<close>

lemma toLowerCase_raw: "toLowerCase ''raw'' = ''raw''"
  by (simp add: toLowerCase_def)

text \<open>
  C9: for every key data and every value of the \<open>extractable\<close> argument,
  \<open>Pbkdf2Provider.onImportKey\<close> succeeds for the format \<open>raw\<close>, and whenever it succeeds
  the handle and the registered key material have \<open>extractable = false\<close>: the argument is
  ignored.
\<close>

theorem C9_pbkdf2_import_never_extractable:
  "(format = ''raw'' \<longrightarrow>
      (\<exists>h st'. Pbkdf2Provider_onImportKey this_name st format keyData alg ext keyUsages = (Inr h, st'))) \<and>
   (\<forall>h st'. Pbkdf2Provider_onImportKey this_name st format keyData alg ext keyUsages = (Inr h, st') \<longrightarrow>
      extractable h = False \<and>
      (\<exists>m. keyStorage st' (ref h) = Some m \<and> extractable m = False \<and> data m = keyData))"
  by (auto simp add: Pbkdf2Provider_onImportKey_def setCryptoKey_def Let_def split: if_splits)

text \<open>
  The instance for an import with \<open>extractable = true\<close>.
\<close>

theorem C9_pbkdf2_import_witness:
  "\<exists>h st'. Pbkdf2Provider_onImportKey ''PBKDF2'' empty_registry ''raw'' [1, 2, 3]
       (algorithm_named ''PBKDF2'') True [''deriveBits''] = (Inr h, st') \<and> extractable h = False"
  using C9_pbkdf2_import_never_extractable [of "''raw''" "''PBKDF2''" empty_registry "[1, 2, 3]"
      "algorithm_named ''PBKDF2''" True "[''deriveBits'']"]
  by auto

text \<open>
  C7: the AES import accepts only key data of 128, 192 or 256 bits. The code computes the
  bit length as \<open>key.data.length << 3\<close>, a 32-bit shift, so key data of
  \<open>2^29 + 16 = 536870928\<close> bytes (4294967424 bits) has the computed length 128 and is
  accepted: \<open>AesCrypto.importKey\<close> returns the key, and the provider registers it.
\<close>

theorem C7_aes_import_wraps:
  "\<exists>key h st'.
     AesCrypto_importKey (\<lambda>c j. Inl (EngineError [])) ''raw'' (Raw (replicate 536870928 0) :: unit KeyData)
        (algorithm_named ''AES-CBC'') True [''encrypt''] = Inr key \<and>
     length (data key) = 536870928 \<and>
     map_option alg_length (algorithm key) = Some (Some 128) \<and>
     AesProvider_onImportKey (\<lambda>c j. Inl (EngineError [])) empty_registry ''raw''
        (Raw (replicate 536870928 0) :: unit KeyData)
        (algorithm_named ''AES-CBC'') True [''encrypt''] = (Inr h, st') \<and>
     keyStorage st' (ref h) = Some key"
  by (simp add: AesCrypto_importKey_def AesProvider_onImportKey_def parse_key_def toLowerCase_raw
        shl_def Let_def setCryptoKey_def new_key_def algorithm_named_def)

lemma shl3_small:
  assumes "n < 268435456"
  shows "shl (int n) 3 = 8 * int n"
  using assms by (intro shl_eq_mult) auto

text \<open>
  Below \<open>2^28\<close> bytes of key data the check of \<open>AesCrypto.importKey\<close> is exact: once
  the format switch has produced the key object, the import returns it (with
  \<open>algorithm.length\<close> set to its bit length) when the data have 16, 24 or 32 bytes, and
  fails with the \<open>OperationError\<close> "keyData: Is wrong key length" otherwise.
\<close>

theorem aes_import_exact_below_2_28:
  assumes "parse_key fromJSON AesCryptoKey format keyData = Inr k0"
    and "length (data k0) < 268435456"
  shows "AesCrypto_importKey fromJSON format keyData alg ext keyUsages =
           (if length (data k0) = 16 \<or> length (data k0) = 24 \<or> length (data k0) = 32
            then Inr (k0\<lparr>algorithm := Some (alg\<lparr>alg_length := Some (8 * int (length (data k0)))\<rparr>),
                         extractable := ext, usages := keyUsages\<rparr>)
            else Inl (OperationError ''keyData: Is wrong key length''))"
  using assms(1) shl3_small [OF assms(2)]
  by (auto simp add: AesCrypto_importKey_def Let_def)

text \<open>
  The instances for raw key data of 24 bytes and of 17 bytes.
\<close>

theorem aes_import_exact_instances:
  "AesCrypto_importKey (\<lambda>c j. Inl (EngineError [])) ''RAW'' (Raw (replicate 24 5) :: unit KeyData)
      (algorithm_named ''AES-GCM'') True [''encrypt'']
     = Inr ((new_key AesCryptoKey)
              \<lparr>data := replicate 24 5,
               algorithm := Some ((algorithm_named ''AES-GCM'')\<lparr>alg_length := Some 192\<rparr>),
               extractable := True, usages := [''encrypt'']\<rparr>) \<and>
   AesCrypto_importKey (\<lambda>c j. Inl (EngineError [])) ''raw'' (Raw (replicate 17 5) :: unit KeyData)
      (algorithm_named ''AES-GCM'') True [''encrypt'']
     = Inl (OperationError ''keyData: Is wrong key length'')"
proof
  have p1: "parse_key (\<lambda>c j. Inl (EngineError [])) AesCryptoKey ''RAW'' (Raw (replicate 24 5) :: unit KeyData)
              = Inr ((new_key AesCryptoKey)\<lparr>data := replicate 24 5\<rparr>)"
    by (simp add: parse_key_def toLowerCase_def)
  have l1: "length (data ((new_key AesCryptoKey)\<lparr>data := replicate 24 (5 :: byte)\<rparr>)) < 268435456"
    by simp
  show "AesCrypto_importKey (\<lambda>c j. Inl (EngineError [])) ''RAW'' (Raw (replicate 24 5) :: unit KeyData)
      (algorithm_named ''AES-GCM'') True [''encrypt'']
     = Inr ((new_key AesCryptoKey)
              \<lparr>data := replicate 24 5,
               algorithm := Some ((algorithm_named ''AES-GCM'')\<lparr>alg_length := Some 192\<rparr>),
               extractable := True, usages := [''encrypt'']\<rparr>)"
    using aes_import_exact_below_2_28 [OF p1 l1, of "algorithm_named ''AES-GCM''" True "[''encrypt'']"]
    by simp
  have p2: "parse_key (\<lambda>c j. Inl (EngineError [])) AesCryptoKey ''raw'' (Raw (replicate 17 5) :: unit KeyData)
              = Inr ((new_key AesCryptoKey)\<lparr>data := replicate 17 5\<rparr>)"
    by (simp add: parse_key_def toLowerCase_def)
  have l2: "length (data ((new_key AesCryptoKey)\<lparr>data := replicate 17 (5 :: byte)\<rparr>)) < 268435456"
    by simp
  show "AesCrypto_importKey (\<lambda>c j. Inl (EngineError [])) ''raw'' (Raw (replicate 17 5) :: unit KeyData)
      (algorithm_named ''AES-GCM'') True [''encrypt'']
     = Inl (OperationError ''keyData: Is wrong key length'')"
    using aes_import_exact_below_2_28 [OF p2 l2, of "algorithm_named ''AES-GCM''" True "[''encrypt'']"]
    by simp
qed

lemma des_provider_import:
  assumes "shr keySizeBits 3 = int n"
  shows "DesProvider_onImportKey this_name keySizeBits fromJSON st format keyData alg ext keyUsages =
     (case parse_key fromJSON DesCryptoKey format keyData of
        Inl e \<Rightarrow> (Inl e, st)
      | Inr k0 \<Rightarrow>
          (if length (data k0) \<noteq> n then (Inl (OperationError ''keyData: Wrong key size''), st)
           else (Inr (fst (setCryptoKey st
                   (k0\<lparr>algorithm := Some ((algorithm_named this_name)\<lparr>alg_length := Some keySizeBits\<rparr>),
                       extractable := ext, usages := keyUsages\<rparr>))),
                 snd (setCryptoKey st
                   (k0\<lparr>algorithm := Some ((algorithm_named this_name)\<lparr>alg_length := Some keySizeBits\<rparr>),
                       extractable := ext, usages := keyUsages\<rparr>)))))"
  using assms
  by (simp add: DesProvider_onImportKey_def DesCrypto_importKey_def Let_def split_beta
        split: sum.split)

text \<open>
  The DES providers compare the byte length itself: a successful
  \<open>DesCbcProvider.onImportKey\<close> registers a key of exactly 8 bytes, a successful
  \<open>DesEde3CbcProvider.onImportKey\<close> one of exactly 24 bytes, and raw key data of any other
  length, however long, fail with the \<open>OperationError\<close> "keyData: Wrong key size".
\<close>

theorem des_import_exact:
  "(\<forall>h st'. DesCbcProvider_onImportKey fromJSON st format keyData alg ext keyUsages = (Inr h, st') \<longrightarrow>
      (\<exists>m. keyStorage st' (ref h) = Some m \<and> length (data m) = 8)) \<and>
   (\<forall>h st'. DesEde3CbcProvider_onImportKey fromJSON st format keyData alg ext keyUsages = (Inr h, st') \<longrightarrow>
      (\<exists>m. keyStorage st' (ref h) = Some m \<and> length (data m) = 24)) \<and>
   (\<forall>b. length b \<noteq> 8 \<longrightarrow>
      fst (DesCbcProvider_onImportKey fromJSON st ''raw'' (Raw b) alg ext keyUsages)
        = Inl (OperationError ''keyData: Wrong key size'')) \<and>
   (\<forall>b. length b \<noteq> 24 \<longrightarrow>
      fst (DesEde3CbcProvider_onImportKey fromJSON st ''raw'' (Raw b) alg ext keyUsages)
        = Inl (OperationError ''keyData: Wrong key size''))"
proof -
  have s8: "shr 64 3 = int 8" by (simp add: shr_def)
  have s24: "shr 192 3 = int 24" by (simp add: shr_def)
  have raw: "\<And>b. parse_key fromJSON DesCryptoKey ''raw'' (Raw b) = Inr ((new_key DesCryptoKey)\<lparr>data := b\<rparr>)"
    by (simp add: parse_key_def toLowerCase_def)
  show ?thesis
    unfolding DesCbcProvider_onImportKey_def DesEde3CbcProvider_onImportKey_def
      des_provider_import [OF s8] des_provider_import [OF s24]
    by (auto simp add: raw setCryptoKey_def Let_def split: sum.splits if_splits)
qed

text \<open>
  The instances for raw DES key data of 8 bytes, and for raw 3DES key data of
  \<open>2^29 + 24\<close> bytes, whose bit length would wrap to 192.
\<close>

theorem des_import_exact_instances:
  "(\<exists>h st' m. DesCbcProvider_onImportKey (\<lambda>c j. Inl (EngineError [])) empty_registry ''raw''
        (Raw (replicate 8 1) :: unit KeyData) (algorithm_named ''DES-CBC'') True [''encrypt'']
        = (Inr h, st') \<and> keyStorage st' (ref h) = Some m \<and> length (data m) = 8) \<and>
   fst (DesEde3CbcProvider_onImportKey (\<lambda>c j. Inl (EngineError [])) empty_registry ''raw''
        (Raw (replicate 536870936 1) :: unit KeyData) (algorithm_named ''DES-EDE3-CBC'') True [''encrypt''])
     = Inl (OperationError ''keyData: Wrong key size'')"
proof
  have "\<exists>h st'. DesCbcProvider_onImportKey (\<lambda>c j. Inl (EngineError [])) empty_registry ''raw''
        (Raw (replicate 8 1) :: unit KeyData) (algorithm_named ''DES-CBC'') True [''encrypt'']
        = (Inr h, st')"
    by (simp add: DesCbcProvider_onImportKey_def DesProvider_onImportKey_def DesCrypto_importKey_def
          parse_key_def toLowerCase_def shr_def setCryptoKey_def Let_def)
  then show "\<exists>h st' m. DesCbcProvider_onImportKey (\<lambda>c j. Inl (EngineError [])) empty_registry ''raw''
        (Raw (replicate 8 1) :: unit KeyData) (algorithm_named ''DES-CBC'') True [''encrypt'']
        = (Inr h, st') \<and> keyStorage st' (ref h) = Some m \<and> length (data m) = 8"
    using des_import_exact [of "\<lambda>c j. Inl (EngineError [])" empty_registry "''raw''"
        "Raw (replicate 8 1) :: unit KeyData" "algorithm_named ''DES-CBC''" True "[''encrypt'']",
        THEN conjunct1]
    by blast
  show "fst (DesEde3CbcProvider_onImportKey (\<lambda>c j. Inl (EngineError [])) empty_registry ''raw''
        (Raw (replicate 536870936 1) :: unit KeyData) (algorithm_named ''DES-EDE3-CBC'') True [''encrypt''])
     = Inl (OperationError ''keyData: Wrong key size'')"
    using des_import_exact [of "\<lambda>c j. Inl (EngineError [])" empty_registry "''raw''"
        "Raw (replicate 8 1) :: unit KeyData" "algorithm_named ''DES-EDE3-CBC''" True "[''encrypt'']",
        THEN conjunct2, THEN conjunct2, THEN conjunct2]
    by simp
qed

lemma hmac_generate_with_length:
  assumes L: "0 < L" "L < 2147483648" and rnd: "\<forall>n. length (rnd n) = n"
    and sel: "(case alg_length alg of
              Some l \<Rightarrow> if l \<noteq> 0 then Inr l else
                 (case hash alg of None \<Rightarrow> Inl (TypeError ''hash'') | Some h \<Rightarrow> getDefaultLength h)
            | None \<Rightarrow>
                 (case hash alg of None \<Rightarrow> Inl (TypeError ''hash'') | Some h \<Rightarrow> getDefaultLength h)) = Inr L"
  shows "\<exists>h st' m. HmacProvider_onGenerateKey this_name getDefaultLength rnd st alg ext keyUsages = (Inr h, st') \<and>
           algorithm h = Some (alg\<lparr>alg_length := Some (8 * (L div 8)), name := this_name\<rparr>) \<and>
           keyStorage st' (ref h) = Some m \<and>
           algorithm m = algorithm h \<and>
           data m = rnd (nat (L div 8)) \<and>
           8 * int (length (data m)) = 8 * (L div 8)"
proof -
  have l: "0 \<le> L" using L by simp
  have a: "shl (shr L 3) 3 = 8 * (L div 8)"
    by (rule shr_shl_round(1) [OF l L(2)])
  have "shr (shl (shr L 3) 3) 3 = L div 8"
    by (rule shr_shl_round(2) [OF l L(2)])
  then have c: "shr (8 * (L div 8)) 3 = L div 8"
    unfolding a .
  have b: "0 \<le> L div 8" "L div 8 \<le> 2147483647" using L by auto
  show ?thesis
    unfolding HmacProvider_onGenerateKey_def sel
    using a b c rnd by (simp add: Let_def randomBytes_def setCryptoKey_def)
qed

text \<open>
  C10, as stated: for every call of \<open>HmacProvider.onGenerateKey\<close> the requested length is
  rounded down to a multiple of 8 and the key has that many bits. A requested length of 0
  selects the hash's default length (here 512); a requested length of
  \<open>2^32 + 8 = 4294967304\<close> bits gives a key of one byte and the stored length 8; a
  requested length of \<open>2^31\<close> bits makes the call fail with a \<open>RangeError\<close>.
\<close>

theorem C10_zero_and_large_lengths:
  "(\<exists>h st'. HmacProvider_onGenerateKey ''HMAC'' (\<lambda>h. Inr 512) (\<lambda>n. replicate n 7) empty_registry
        ((algorithm_named ''HMAC'')\<lparr>alg_length := Some 0, hash := Some ''SHA-256''\<rparr>) True [''sign'']
        = (Inr h, st') \<and>
      map_option alg_length (algorithm h) = Some (Some 512)) \<and>
   (\<exists>h st' m. HmacProvider_onGenerateKey ''HMAC'' (\<lambda>h. Inr 512) (\<lambda>n. replicate n 7) empty_registry
        ((algorithm_named ''HMAC'')\<lparr>alg_length := Some 4294967304, hash := Some ''SHA-256''\<rparr>) True [''sign'']
        = (Inr h, st') \<and>
      map_option alg_length (algorithm h) = Some (Some 8) \<and>
      keyStorage st' (ref h) = Some m \<and> length (data m) = 1) \<and>
   fst (HmacProvider_onGenerateKey ''HMAC'' (\<lambda>h. Inr 512) (\<lambda>n. replicate n 7) empty_registry
        ((algorithm_named ''HMAC'')\<lparr>alg_length := Some 2147483648, hash := Some ''SHA-256''\<rparr>) True [''sign''])
     = Inl (RangeError ''The value of size is out of range'')"
  by (simp add: HmacProvider_onGenerateKey_def algorithm_named_def shl_def shr_def Let_def
        randomBytes_def setCryptoKey_def empty_registry_def)

text \<open>
  C10, amended: let \<open>L\<close> be the requested length when it is present and not 0, and the
  hash's default length when the length is omitted or 0. If \<open>0 < L < 2^31\<close>, the call
  succeeds, the stored \<open>algorithm.length\<close> (of the handle and of the registered key) is
  \<open>L\<close> rounded down to a multiple of 8, and the key data are the \<open>L div 8\<close> bytes drawn
  from the random source, exactly that many bits.
\<close>

theorem C10_hmac_generate_rounds_down:
  assumes "0 < L" "L < 2147483648" and "\<forall>n. length (rnd n) = n"
    and "alg_length alg = Some L \<or>
         ((alg_length alg = None \<or> alg_length alg = Some 0) \<and> hash alg = Some hname \<and>
          getDefaultLength hname = Inr L)"
  shows "\<exists>h st' m. HmacProvider_onGenerateKey this_name getDefaultLength rnd st alg ext keyUsages = (Inr h, st') \<and>
           algorithm h = Some (alg\<lparr>alg_length := Some (8 * (L div 8)), name := this_name\<rparr>) \<and>
           keyStorage st' (ref h) = Some m \<and>
           algorithm m = algorithm h \<and>
           data m = rnd (nat (L div 8)) \<and>
           8 * int (length (data m)) = 8 * (L div 8)"
proof (rule hmac_generate_with_length [OF assms(1) assms(2) assms(3)])
  show "(case alg_length alg of
              Some l \<Rightarrow> if l \<noteq> 0 then Inr l else
                 (case hash alg of None \<Rightarrow> Inl (TypeError ''hash'') | Some h \<Rightarrow> getDefaultLength h)
            | None \<Rightarrow>
                 (case hash alg of None \<Rightarrow> Inl (TypeError ''hash'') | Some h \<Rightarrow> getDefaultLength h)) = Inr L"
    using assms(1) assms(4) by auto
qed

text \<open>
  The instance for a requested length of 100 bits: the stored length is 96, the key has 12
  bytes.
\<close>

theorem C10_hmac_generate_witness:
  "\<exists>h st' m. HmacProvider_onGenerateKey ''HMAC'' (\<lambda>h. Inr 512) (\<lambda>n. replicate n 7) empty_registry
        ((algorithm_named ''HMAC'')\<lparr>alg_length := Some 100, hash := Some ''SHA-256''\<rparr>) True [''sign'']
        = (Inr h, st') \<and>
      map_option alg_length (algorithm h) = Some (Some 96) \<and>
      keyStorage st' (ref h) = Some m \<and> length (data m) = 12"
  using C10_hmac_generate_rounds_down [of 100 "\<lambda>n. replicate n 7"
      "(algorithm_named ''HMAC'')\<lparr>alg_length := Some 100, hash := Some ''SHA-256''\<rparr>"
      "''SHA-256''" "\<lambda>h. Inr 512" "''HMAC''" empty_registry True "[''sign'']"]
  by auto

lemma register_pair_fields:
  assumes "register_pair st (Inr ks) = (Inr (priv, pub), st')"
  shows "extractable pub = extractable (publicKey ks) \<and> usages pub = usages (publicKey ks) \<and>
         extractable priv = extractable (privateKey ks) \<and> usages priv = usages (privateKey ks)"
  using assms by (auto simp add: register_pair_def setCryptoKey_def Let_def)

lemma rsa_generateKey_ok:
  assumes "RsaCrypto_generateKey g alg ext keyUsages = Inr res"
  shows "extractable (publicKey res) = True \<and>
      extractable (privateKey res) = ext \<and>
      usages (privateKey res) = filter (\<lambda>u. u \<in> set RsaCrypto_privateKeyUsages) keyUsages \<and>
      usages (publicKey res) = filter (\<lambda>u. u \<in> set RsaCrypto_publicKeyUsages) keyUsages \<and>
      set (usages (privateKey res)) \<subseteq> {''sign'', ''decrypt'', ''unwrapKey'', ''deriveKey'', ''deriveBits''} \<and>
      set (usages (publicKey res)) \<subseteq> {''verify'', ''encrypt'', ''wrapKey''}"
  using assms
  by (auto simp add: RsaCrypto_generateKey_def Let_def RsaCrypto_privateKeyUsages_def
        RsaCrypto_publicKeyUsages_def split: option.splits if_splits sum.splits)

lemma ec_generateKey_ok:
  assumes "EcCrypto_generateKey g alg ext keyUsages = Inr res"
  shows "extractable (publicKey res) = True \<and>
      extractable (privateKey res) = ext \<and>
      usages (privateKey res) = filter (\<lambda>u. u \<in> set EcCrypto_privateKeyUsages) keyUsages \<and>
      usages (publicKey res) = filter (\<lambda>u. u \<in> set EcCrypto_publicKeyUsages) keyUsages \<and>
      set (usages (privateKey res)) \<subseteq> {''sign'', ''decrypt'', ''unwrapKey'', ''deriveKey'', ''deriveBits''} \<and>
      set (usages (publicKey res)) \<subseteq> {''verify'', ''encrypt'', ''wrapKey''}"
  using assms
  by (auto simp add: EcCrypto_generateKey_def Let_def EcCrypto_privateKeyUsages_def
        EcCrypto_publicKeyUsages_def split: option.splits if_splits sum.splits)

lemma ed_generateKey_ok:
  assumes "EdCrypto_generateKey g alg ext keyUsages = Inr res"
  shows "extractable (publicKey res) = True \<and>
      extractable (privateKey res) = ext \<and>
      usages (privateKey res) = filter (\<lambda>u. u \<in> set EdCrypto_privateKeyUsages) keyUsages \<and>
      usages (publicKey res) = filter (\<lambda>u. u \<in> set EdCrypto_publicKeyUsages) keyUsages \<and>
      set (usages (privateKey res)) \<subseteq> {''sign'', ''decrypt'', ''unwrapKey'', ''deriveKey'', ''deriveBits''} \<and>
      set (usages (publicKey res)) \<subseteq> {''verify'', ''encrypt'', ''wrapKey''}"
  using assms
  by (auto simp add: EdCrypto_generateKey_def Let_def EdCrypto_privateKeyUsages_def
        EdCrypto_publicKeyUsages_def split: option.splits if_splits sum.splits)

lemma register_pair_returns:
  "\<exists>priv pub st'. register_pair st (Inr ks) = (Inr (priv, pub), st')"
  by (simp add: register_pair_def Let_def split: prod.splits)

lemma getOpenSSLNamedCurve_known:
  assumes "(toUpperCase curve, c) \<in> set [(''P-256'', ''prime256v1''), (''K-256'', ''secp256k1''),
                                    (''P-384'', ''secp384r1''), (''P-521'', ''secp521r1'')]"
  shows "EcCrypto_getOpenSSLNamedCurve curve = Inr c"
  using assms by (auto simp add: EcCrypto_getOpenSSLNamedCurve_def)

lemma rsa_generateKey_returns:
  assumes "publicExponent alg = Some e" and "length e \<le> 4"
    and "g ''rsa'' (RsaOptions (modulusLength alg) (readInt32BE (replicate (4 - length e) 0 @ e)))
         = Inr (privDer, pubDer)"
  shows "\<exists>res. RsaCrypto_generateKey g alg ext keyUsages = Inr res \<and>
           data (privateKey res) = privDer \<and> data (publicKey res) = pubDer"
  using assms by (simp add: RsaCrypto_generateKey_def Let_def)

lemma ec_generateKey_returns:
  assumes "namedCurve alg = Some curve" and "EcCrypto_getOpenSSLNamedCurve curve = Inr c"
    and "g ''ec'' (EcOptions c) = Inr (privDer, pubDer)"
  shows "\<exists>res. EcCrypto_generateKey g alg ext keyUsages = Inr res \<and>
           data (privateKey res) = privDer \<and> data (publicKey res) = pubDer"
  using assms by (simp add: EcCrypto_generateKey_def Let_def)

lemma ed_generateKey_returns:
  assumes "namedCurve alg = Some curve"
    and "g (toLowerCase curve) NoOptions = Inr (privDer, pubDer)"
  shows "\<exists>res. EdCrypto_generateKey g alg ext keyUsages = Inr res \<and>
           data (privateKey res) = privDer \<and> data (publicKey res) = pubDer"
  using assms by (simp add: EdCrypto_generateKey_def Let_def)

lemma rsa_provider_returns:
  assumes "RsaCrypto_generateKey g (alg\<lparr>name := this_name\<rparr>) ext keyUsages = Inr ks"
  shows "\<exists>priv pub st'. RsaProvider_onGenerateKey this_name g st alg ext keyUsages = (Inr (priv, pub), st') \<and>
         extractable pub = True \<and> extractable priv = ext \<and>
         usages priv = filter (\<lambda>u. u \<in> set RsaCrypto_privateKeyUsages) keyUsages \<and>
         usages pub = filter (\<lambda>u. u \<in> set RsaCrypto_publicKeyUsages) keyUsages"
proof -
  obtain priv pub st' where r: "register_pair st (Inr ks) = (Inr (priv, pub), st')"
    using register_pair_returns by blast
  have "RsaProvider_onGenerateKey this_name g st alg ext keyUsages = (Inr (priv, pub), st')"
    using assms r by (simp add: RsaProvider_onGenerateKey_def)
  then show ?thesis
    using register_pair_fields [OF r] rsa_generateKey_ok [OF assms] by simp
qed

lemma ec_provider_returns:
  assumes "EcCrypto_generateKey g (alg\<lparr>name := this_name\<rparr>) ext keyUsages = Inr ks"
  shows "\<exists>priv pub st'. EcProvider_onGenerateKey this_name g st alg ext keyUsages = (Inr (priv, pub), st') \<and>
         extractable pub = True \<and> extractable priv = ext \<and>
         usages priv = filter (\<lambda>u. u \<in> set EcCrypto_privateKeyUsages) keyUsages \<and>
         usages pub = filter (\<lambda>u. u \<in> set EcCrypto_publicKeyUsages) keyUsages"
proof -
  obtain priv pub st' where r: "register_pair st (Inr ks) = (Inr (priv, pub), st')"
    using register_pair_returns by blast
  have "EcProvider_onGenerateKey this_name g st alg ext keyUsages = (Inr (priv, pub), st')"
    using assms r by (simp add: EcProvider_onGenerateKey_def)
  then show ?thesis
    using register_pair_fields [OF r] ec_generateKey_ok [OF assms] by simp
qed

text \<open>
  C8: for any requested \<open>extractable\<close> flag and usage list, \<open>RsaCrypto.generateKey\<close>,
  \<open>EcCrypto.generateKey\<close> and \<open>EdCrypto.generateKey\<close> return a key pair whenever the engine
  returns one (for RSA the public exponent is present and has at most four bytes, for EC
  the curve is one of P-256, K-256, P-384, P-521 in any letter case and the engine is
  called with its OpenSSL name, for Ed/X the engine is called with the lower-cased curve
  name), and so do \<open>onGenerateKey\<close> of the RSA and EC providers. The pair holds the
  engine's two encodings; its public key has \<open>extractable = true\<close>, its private key has
  the requested flag, the private key's usages are the requested usages that are in the
  family's legal private-key set, a subset of sign, decrypt, unwrapKey, deriveKey,
  deriveBits, and the public key's usages are those in the legal public-key set, a subset
  of verify, encrypt, wrapKey. The handles that the providers return carry the same flag
  and usages. No key pair is returned in another way: every pair that one of the three
  functions returns has these properties.
\<close>

theorem C8_generateKey_public_extractable_usages_filtered:
  "(\<forall>e privDer pubDer.
       publicExponent alg = Some e \<and> length e \<le> 4 \<and>
       g ''rsa'' (RsaOptions (modulusLength alg) (readInt32BE (replicate (4 - length e) 0 @ e)))
         = Inr (privDer, pubDer) \<longrightarrow>
       (\<exists>res. RsaCrypto_generateKey g alg ext keyUsages = Inr res \<and>
         data (privateKey res) = privDer \<and> data (publicKey res) = pubDer \<and>
         extractable (publicKey res) = True \<and>
         extractable (privateKey res) = ext \<and>
         usages (privateKey res) = filter (\<lambda>u. u \<in> set RsaCrypto_privateKeyUsages) keyUsages \<and>
         usages (publicKey res) = filter (\<lambda>u. u \<in> set RsaCrypto_publicKeyUsages) keyUsages \<and>
         set (usages (privateKey res)) \<subseteq> {''sign'', ''decrypt'', ''unwrapKey'', ''deriveKey'', ''deriveBits''} \<and>
         set (usages (publicKey res)) \<subseteq> {''verify'', ''encrypt'', ''wrapKey''})) \<and>
   (\<forall>curve c privDer pubDer.
       namedCurve alg = Some curve \<and>
       (toUpperCase curve, c) \<in> set [(''P-256'', ''prime256v1''), (''K-256'', ''secp256k1''),
                                    (''P-384'', ''secp384r1''), (''P-521'', ''secp521r1'')] \<and>
       g ''ec'' (EcOptions c) = Inr (privDer, pubDer) \<longrightarrow>
       (\<exists>res. EcCrypto_generateKey g alg ext keyUsages = Inr res \<and>
         data (privateKey res) = privDer \<and> data (publicKey res) = pubDer \<and>
         extractable (publicKey res) = True \<and>
         extractable (privateKey res) = ext \<and>
         usages (privateKey res) = filter (\<lambda>u. u \<in> set EcCrypto_privateKeyUsages) keyUsages \<and>
         usages (publicKey res) = filter (\<lambda>u. u \<in> set EcCrypto_publicKeyUsages) keyUsages \<and>
         set (usages (privateKey res)) \<subseteq> {''sign'', ''decrypt'', ''unwrapKey'', ''deriveKey'', ''deriveBits''} \<and>
         set (usages (publicKey res)) \<subseteq> {''verify'', ''encrypt'', ''wrapKey''})) \<and>
   (\<forall>curve privDer pubDer.
       namedCurve alg = Some curve \<and>
       g (toLowerCase curve) NoOptions = Inr (privDer, pubDer) \<longrightarrow>
       (\<exists>res. EdCrypto_generateKey g alg ext keyUsages = Inr res \<and>
         data (privateKey res) = privDer \<and> data (publicKey res) = pubDer \<and>
         extractable (publicKey res) = True \<and>
         extractable (privateKey res) = ext \<and>
         usages (privateKey res) = filter (\<lambda>u. u \<in> set EdCrypto_privateKeyUsages) keyUsages \<and>
         usages (publicKey res) = filter (\<lambda>u. u \<in> set EdCrypto_publicKeyUsages) keyUsages \<and>
         set (usages (privateKey res)) \<subseteq> {''sign'', ''decrypt'', ''unwrapKey'', ''deriveKey'', ''deriveBits''} \<and>
         set (usages (publicKey res)) \<subseteq> {''verify'', ''encrypt'', ''wrapKey''})) \<and>
   (\<forall>e privDer pubDer.
       publicExponent alg = Some e \<and> length e \<le> 4 \<and>
       g ''rsa'' (RsaOptions (modulusLength alg) (readInt32BE (replicate (4 - length e) 0 @ e)))
         = Inr (privDer, pubDer) \<longrightarrow>
       (\<exists>priv pub st'. RsaProvider_onGenerateKey this_name g st alg ext keyUsages = (Inr (priv, pub), st') \<and>
         extractable pub = True \<and> extractable priv = ext \<and>
         usages priv = filter (\<lambda>u. u \<in> set RsaCrypto_privateKeyUsages) keyUsages \<and>
         usages pub = filter (\<lambda>u. u \<in> set RsaCrypto_publicKeyUsages) keyUsages)) \<and>
   (\<forall>curve c privDer pubDer.
       namedCurve alg = Some curve \<and>
       (toUpperCase curve, c) \<in> set [(''P-256'', ''prime256v1''), (''K-256'', ''secp256k1''),
                                    (''P-384'', ''secp384r1''), (''P-521'', ''secp521r1'')] \<and>
       g ''ec'' (EcOptions c) = Inr (privDer, pubDer) \<longrightarrow>
       (\<exists>priv pub st'. EcProvider_onGenerateKey this_name g st alg ext keyUsages = (Inr (priv, pub), st') \<and>
         extractable pub = True \<and> extractable priv = ext \<and>
         usages priv = filter (\<lambda>u. u \<in> set EcCrypto_privateKeyUsages) keyUsages \<and>
         usages pub = filter (\<lambda>u. u \<in> set EcCrypto_publicKeyUsages) keyUsages)) \<and>
   (\<forall>res. RsaCrypto_generateKey g alg ext keyUsages = Inr res \<longrightarrow>
         extractable (publicKey res) = True \<and>
         extractable (privateKey res) = ext \<and>
         usages (privateKey res) = filter (\<lambda>u. u \<in> set RsaCrypto_privateKeyUsages) keyUsages \<and>
         usages (publicKey res) = filter (\<lambda>u. u \<in> set RsaCrypto_publicKeyUsages) keyUsages \<and>
         set (usages (privateKey res)) \<subseteq> {''sign'', ''decrypt'', ''unwrapKey'', ''deriveKey'', ''deriveBits''} \<and>
         set (usages (publicKey res)) \<subseteq> {''verify'', ''encrypt'', ''wrapKey''}) \<and>
   (\<forall>res. EcCrypto_generateKey g alg ext keyUsages = Inr res \<longrightarrow>
         extractable (publicKey res) = True \<and>
         extractable (privateKey res) = ext \<and>
         usages (privateKey res) = filter (\<lambda>u. u \<in> set EcCrypto_privateKeyUsages) keyUsages \<and>
         usages (publicKey res) = filter (\<lambda>u. u \<in> set EcCrypto_publicKeyUsages) keyUsages \<and>
         set (usages (privateKey res)) \<subseteq> {''sign'', ''decrypt'', ''unwrapKey'', ''deriveKey'', ''deriveBits''} \<and>
         set (usages (publicKey res)) \<subseteq> {''verify'', ''encrypt'', ''wrapKey''}) \<and>
   (\<forall>res. EdCrypto_generateKey g alg ext keyUsages = Inr res \<longrightarrow>
         extractable (publicKey res) = True \<and>
         extractable (privateKey res) = ext \<and>
         usages (privateKey res) = filter (\<lambda>u. u \<in> set EdCrypto_privateKeyUsages) keyUsages \<and>
         usages (publicKey res) = filter (\<lambda>u. u \<in> set EdCrypto_publicKeyUsages) keyUsages \<and>
         set (usages (privateKey res)) \<subseteq> {''sign'', ''decrypt'', ''unwrapKey'', ''deriveKey'', ''deriveBits''} \<and>
         set (usages (publicKey res)) \<subseteq> {''verify'', ''encrypt'', ''wrapKey''})"
proof -
  have srsa: "\<forall>e privDer pubDer.
       publicExponent alg = Some e \<and> length e \<le> 4 \<and>
       g ''rsa'' (RsaOptions (modulusLength alg) (readInt32BE (replicate (4 - length e) 0 @ e)))
         = Inr (privDer, pubDer) \<longrightarrow>
       (\<exists>res. RsaCrypto_generateKey g alg ext keyUsages = Inr res \<and>
         data (privateKey res) = privDer \<and> data (publicKey res) = pubDer \<and>
         extractable (publicKey res) = True \<and>
         extractable (privateKey res) = ext \<and>
         usages (privateKey res) = filter (\<lambda>u. u \<in> set RsaCrypto_privateKeyUsages) keyUsages \<and>
         usages (publicKey res) = filter (\<lambda>u. u \<in> set RsaCrypto_publicKeyUsages) keyUsages \<and>
         set (usages (privateKey res)) \<subseteq> {''sign'', ''decrypt'', ''unwrapKey'', ''deriveKey'', ''deriveBits''} \<and>
         set (usages (publicKey res)) \<subseteq> {''verify'', ''encrypt'', ''wrapKey''})"
  proof (intro allI impI)
    fix e privDer pubDer
    assume a: "publicExponent alg = Some e \<and> length e \<le> 4 \<and>
       g ''rsa'' (RsaOptions (modulusLength alg) (readInt32BE (replicate (4 - length e) 0 @ e)))
         = Inr (privDer, pubDer)"
    obtain res where r: "RsaCrypto_generateKey g alg ext keyUsages = Inr res"
        and dd: "data (privateKey res) = privDer \<and> data (publicKey res) = pubDer"
      using a rsa_generateKey_returns [of alg e g privDer pubDer ext keyUsages] by auto
    have "RsaCrypto_generateKey g alg ext keyUsages = Inr res \<and>
         data (privateKey res) = privDer \<and> data (publicKey res) = pubDer \<and>
         extractable (publicKey res) = True \<and>
         extractable (privateKey res) = ext \<and>
         usages (privateKey res) = filter (\<lambda>u. u \<in> set RsaCrypto_privateKeyUsages) keyUsages \<and>
         usages (publicKey res) = filter (\<lambda>u. u \<in> set RsaCrypto_publicKeyUsages) keyUsages \<and>
         set (usages (privateKey res)) \<subseteq> {''sign'', ''decrypt'', ''unwrapKey'', ''deriveKey'', ''deriveBits''} \<and>
         set (usages (publicKey res)) \<subseteq> {''verify'', ''encrypt'', ''wrapKey''}"
      by (rule conjI [OF r conjI [OF conjunct1 [OF dd] conjI [OF conjunct2 [OF dd]
            rsa_generateKey_ok [OF r]]]])
    then show "\<exists>res. RsaCrypto_generateKey g alg ext keyUsages = Inr res \<and>
         data (privateKey res) = privDer \<and> data (publicKey res) = pubDer \<and>
         extractable (publicKey res) = True \<and>
         extractable (privateKey res) = ext \<and>
         usages (privateKey res) = filter (\<lambda>u. u \<in> set RsaCrypto_privateKeyUsages) keyUsages \<and>
         usages (publicKey res) = filter (\<lambda>u. u \<in> set RsaCrypto_publicKeyUsages) keyUsages \<and>
         set (usages (privateKey res)) \<subseteq> {''sign'', ''decrypt'', ''unwrapKey'', ''deriveKey'', ''deriveBits''} \<and>
         set (usages (publicKey res)) \<subseteq> {''verify'', ''encrypt'', ''wrapKey''}"
      by (rule exI [of _ res])
  qed
  have sec: "\<forall>curve c privDer pubDer.
       namedCurve alg = Some curve \<and>
       (toUpperCase curve, c) \<in> set [(''P-256'', ''prime256v1''), (''K-256'', ''secp256k1''),
                                    (''P-384'', ''secp384r1''), (''P-521'', ''secp521r1'')] \<and>
       g ''ec'' (EcOptions c) = Inr (privDer, pubDer) \<longrightarrow>
       (\<exists>res. EcCrypto_generateKey g alg ext keyUsages = Inr res \<and>
         data (privateKey res) = privDer \<and> data (publicKey res) = pubDer \<and>
         extractable (publicKey res) = True \<and>
         extractable (privateKey res) = ext \<and>
         usages (privateKey res) = filter (\<lambda>u. u \<in> set EcCrypto_privateKeyUsages) keyUsages \<and>
         usages (publicKey res) = filter (\<lambda>u. u \<in> set EcCrypto_publicKeyUsages) keyUsages \<and>
         set (usages (privateKey res)) \<subseteq> {''sign'', ''decrypt'', ''unwrapKey'', ''deriveKey'', ''deriveBits''} \<and>
         set (usages (publicKey res)) \<subseteq> {''verify'', ''encrypt'', ''wrapKey''})"
  proof (intro allI impI)
    fix curve c privDer pubDer
    assume a: "namedCurve alg = Some curve \<and>
       (toUpperCase curve, c) \<in> set [(''P-256'', ''prime256v1''), (''K-256'', ''secp256k1''),
                                    (''P-384'', ''secp384r1''), (''P-521'', ''secp521r1'')] \<and>
       g ''ec'' (EcOptions c) = Inr (privDer, pubDer)"
    from a have k: "EcCrypto_getOpenSSLNamedCurve curve = Inr c"
      using getOpenSSLNamedCurve_known by blast
    obtain res where r: "EcCrypto_generateKey g alg ext keyUsages = Inr res"
        and dd: "data (privateKey res) = privDer \<and> data (publicKey res) = pubDer"
      using a k ec_generateKey_returns [of alg curve c g privDer pubDer ext keyUsages] by auto
    have "EcCrypto_generateKey g alg ext keyUsages = Inr res \<and>
         data (privateKey res) = privDer \<and> data (publicKey res) = pubDer \<and>
         extractable (publicKey res) = True \<and>
         extractable (privateKey res) = ext \<and>
         usages (privateKey res) = filter (\<lambda>u. u \<in> set EcCrypto_privateKeyUsages) keyUsages \<and>
         usages (publicKey res) = filter (\<lambda>u. u \<in> set EcCrypto_publicKeyUsages) keyUsages \<and>
         set (usages (privateKey res)) \<subseteq> {''sign'', ''decrypt'', ''unwrapKey'', ''deriveKey'', ''deriveBits''} \<and>
         set (usages (publicKey res)) \<subseteq> {''verify'', ''encrypt'', ''wrapKey''}"
      by (rule conjI [OF r conjI [OF conjunct1 [OF dd] conjI [OF conjunct2 [OF dd]
            ec_generateKey_ok [OF r]]]])
    then show "\<exists>res. EcCrypto_generateKey g alg ext keyUsages = Inr res \<and>
         data (privateKey res) = privDer \<and> data (publicKey res) = pubDer \<and>
         extractable (publicKey res) = True \<and>
         extractable (privateKey res) = ext \<and>
         usages (privateKey res) = filter (\<lambda>u. u \<in> set EcCrypto_privateKeyUsages) keyUsages \<and>
         usages (publicKey res) = filter (\<lambda>u. u \<in> set EcCrypto_publicKeyUsages) keyUsages \<and>
         set (usages (privateKey res)) \<subseteq> {''sign'', ''decrypt'', ''unwrapKey'', ''deriveKey'', ''deriveBits''} \<and>
         set (usages (publicKey res)) \<subseteq> {''verify'', ''encrypt'', ''wrapKey''}"
      by (rule exI [of _ res])
  qed
  have sed: "\<forall>curve privDer pubDer.
       namedCurve alg = Some curve \<and>
       g (toLowerCase curve) NoOptions = Inr (privDer, pubDer) \<longrightarrow>
       (\<exists>res. EdCrypto_generateKey g alg ext keyUsages = Inr res \<and>
         data (privateKey res) = privDer \<and> data (publicKey res) = pubDer \<and>
         extractable (publicKey res) = True \<and>
         extractable (privateKey res) = ext \<and>
         usages (privateKey res) = filter (\<lambda>u. u \<in> set EdCrypto_privateKeyUsages) keyUsages \<and>
         usages (publicKey res) = filter (\<lambda>u. u \<in> set EdCrypto_publicKeyUsages) keyUsages \<and>
         set (usages (privateKey res)) \<subseteq> {''sign'', ''decrypt'', ''unwrapKey'', ''deriveKey'', ''deriveBits''} \<and>
         set (usages (publicKey res)) \<subseteq> {''verify'', ''encrypt'', ''wrapKey''})"
  proof (intro allI impI)
    fix curve privDer pubDer
    assume a: "namedCurve alg = Some curve \<and>
       g (toLowerCase curve) NoOptions = Inr (privDer, pubDer)"
    obtain res where r: "EdCrypto_generateKey g alg ext keyUsages = Inr res"
        and dd: "data (privateKey res) = privDer \<and> data (publicKey res) = pubDer"
      using a ed_generateKey_returns [of alg curve g privDer pubDer ext keyUsages] by auto
    have "EdCrypto_generateKey g alg ext keyUsages = Inr res \<and>
         data (privateKey res) = privDer \<and> data (publicKey res) = pubDer \<and>
         extractable (publicKey res) = True \<and>
         extractable (privateKey res) = ext \<and>
         usages (privateKey res) = filter (\<lambda>u. u \<in> set EdCrypto_privateKeyUsages) keyUsages \<and>
         usages (publicKey res) = filter (\<lambda>u. u \<in> set EdCrypto_publicKeyUsages) keyUsages \<and>
         set (usages (privateKey res)) \<subseteq> {''sign'', ''decrypt'', ''unwrapKey'', ''deriveKey'', ''deriveBits''} \<and>
         set (usages (publicKey res)) \<subseteq> {''verify'', ''encrypt'', ''wrapKey''}"
      by (rule conjI [OF r conjI [OF conjunct1 [OF dd] conjI [OF conjunct2 [OF dd]
            ed_generateKey_ok [OF r]]]])
    then show "\<exists>res. EdCrypto_generateKey g alg ext keyUsages = Inr res \<and>
         data (privateKey res) = privDer \<and> data (publicKey res) = pubDer \<and>
         extractable (publicKey res) = True \<and>
         extractable (privateKey res) = ext \<and>
         usages (privateKey res) = filter (\<lambda>u. u \<in> set EdCrypto_privateKeyUsages) keyUsages \<and>
         usages (publicKey res) = filter (\<lambda>u. u \<in> set EdCrypto_publicKeyUsages) keyUsages \<and>
         set (usages (privateKey res)) \<subseteq> {''sign'', ''decrypt'', ''unwrapKey'', ''deriveKey'', ''deriveBits''} \<and>
         set (usages (publicKey res)) \<subseteq> {''verify'', ''encrypt'', ''wrapKey''}"
      by (rule exI [of _ res])
  qed
  have prsa: "\<forall>e privDer pubDer.
       publicExponent alg = Some e \<and> length e \<le> 4 \<and>
       g ''rsa'' (RsaOptions (modulusLength alg) (readInt32BE (replicate (4 - length e) 0 @ e)))
         = Inr (privDer, pubDer) \<longrightarrow>
       (\<exists>priv pub st'. RsaProvider_onGenerateKey this_name g st alg ext keyUsages = (Inr (priv, pub), st') \<and>
         extractable pub = True \<and> extractable priv = ext \<and>
         usages priv = filter (\<lambda>u. u \<in> set RsaCrypto_privateKeyUsages) keyUsages \<and>
         usages pub = filter (\<lambda>u. u \<in> set RsaCrypto_publicKeyUsages) keyUsages)"
  proof (intro allI impI)
    fix e privDer pubDer
    assume a: "publicExponent alg = Some e \<and> length e \<le> 4 \<and>
       g ''rsa'' (RsaOptions (modulusLength alg) (readInt32BE (replicate (4 - length e) 0 @ e)))
         = Inr (privDer, pubDer)"
    have "\<exists>ks. RsaCrypto_generateKey g (alg\<lparr>name := this_name\<rparr>) ext keyUsages = Inr ks"
      using a rsa_generateKey_returns [of "alg\<lparr>name := this_name\<rparr>" e g privDer pubDer ext keyUsages]
      by auto
    then obtain ks where "RsaCrypto_generateKey g (alg\<lparr>name := this_name\<rparr>) ext keyUsages = Inr ks" ..
    then show "\<exists>priv pub st'. RsaProvider_onGenerateKey this_name g st alg ext keyUsages = (Inr (priv, pub), st') \<and>
         extractable pub = True \<and> extractable priv = ext \<and>
         usages priv = filter (\<lambda>u. u \<in> set RsaCrypto_privateKeyUsages) keyUsages \<and>
         usages pub = filter (\<lambda>u. u \<in> set RsaCrypto_publicKeyUsages) keyUsages"
      by (rule rsa_provider_returns)
  qed
  have pec: "\<forall>curve c privDer pubDer.
       namedCurve alg = Some curve \<and>
       (toUpperCase curve, c) \<in> set [(''P-256'', ''prime256v1''), (''K-256'', ''secp256k1''),
                                    (''P-384'', ''secp384r1''), (''P-521'', ''secp521r1'')] \<and>
       g ''ec'' (EcOptions c) = Inr (privDer, pubDer) \<longrightarrow>
       (\<exists>priv pub st'. EcProvider_onGenerateKey this_name g st alg ext keyUsages = (Inr (priv, pub), st') \<and>
         extractable pub = True \<and> extractable priv = ext \<and>
         usages priv = filter (\<lambda>u. u \<in> set EcCrypto_privateKeyUsages) keyUsages \<and>
         usages pub = filter (\<lambda>u. u \<in> set EcCrypto_publicKeyUsages) keyUsages)"
  proof (intro allI impI)
    fix curve c privDer pubDer
    assume a: "namedCurve alg = Some curve \<and>
       (toUpperCase curve, c) \<in> set [(''P-256'', ''prime256v1''), (''K-256'', ''secp256k1''),
                                    (''P-384'', ''secp384r1''), (''P-521'', ''secp521r1'')] \<and>
       g ''ec'' (EcOptions c) = Inr (privDer, pubDer)"
    then have k: "EcCrypto_getOpenSSLNamedCurve curve = Inr c"
      using getOpenSSLNamedCurve_known by blast
    have "\<exists>ks. EcCrypto_generateKey g (alg\<lparr>name := this_name\<rparr>) ext keyUsages = Inr ks"
      using a k ec_generateKey_returns [of "alg\<lparr>name := this_name\<rparr>" curve c g privDer pubDer ext keyUsages]
      by auto
    then obtain ks where "EcCrypto_generateKey g (alg\<lparr>name := this_name\<rparr>) ext keyUsages = Inr ks" ..
    then show "\<exists>priv pub st'. EcProvider_onGenerateKey this_name g st alg ext keyUsages = (Inr (priv, pub), st') \<and>
         extractable pub = True \<and> extractable priv = ext \<and>
         usages priv = filter (\<lambda>u. u \<in> set EcCrypto_privateKeyUsages) keyUsages \<and>
         usages pub = filter (\<lambda>u. u \<in> set EcCrypto_publicKeyUsages) keyUsages"
      by (rule ec_provider_returns)
  qed
  have rrsa: "\<forall>res. RsaCrypto_generateKey g alg ext keyUsages = Inr res \<longrightarrow>
         extractable (publicKey res) = True \<and>
         extractable (privateKey res) = ext \<and>
         usages (privateKey res) = filter (\<lambda>u. u \<in> set RsaCrypto_privateKeyUsages) keyUsages \<and>
         usages (publicKey res) = filter (\<lambda>u. u \<in> set RsaCrypto_publicKeyUsages) keyUsages \<and>
         set (usages (privateKey res)) \<subseteq> {''sign'', ''decrypt'', ''unwrapKey'', ''deriveKey'', ''deriveBits''} \<and>
         set (usages (publicKey res)) \<subseteq> {''verify'', ''encrypt'', ''wrapKey''}"
    by (intro allI impI) (rule rsa_generateKey_ok)
  have rec: "\<forall>res. EcCrypto_generateKey g alg ext keyUsages = Inr res \<longrightarrow>
         extractable (publicKey res) = True \<and>
         extractable (privateKey res) = ext \<and>
         usages (privateKey res) = filter (\<lambda>u. u \<in> set EcCrypto_privateKeyUsages) keyUsages \<and>
         usages (publicKey res) = filter (\<lambda>u. u \<in> set EcCrypto_publicKeyUsages) keyUsages \<and>
         set (usages (privateKey res)) \<subseteq> {''sign'', ''decrypt'', ''unwrapKey'', ''deriveKey'', ''deriveBits''} \<and>
         set (usages (publicKey res)) \<subseteq> {''verify'', ''encrypt'', ''wrapKey''}"
    by (intro allI impI) (rule ec_generateKey_ok)
  have red: "\<forall>res. EdCrypto_generateKey g alg ext keyUsages = Inr res \<longrightarrow>
         extractable (publicKey res) = True \<and>
         extractable (privateKey res) = ext \<and>
         usages (privateKey res) = filter (\<lambda>u. u \<in> set EdCrypto_privateKeyUsages) keyUsages \<and>
         usages (publicKey res) = filter (\<lambda>u. u \<in> set EdCrypto_publicKeyUsages) keyUsages \<and>
         set (usages (privateKey res)) \<subseteq> {''sign'', ''decrypt'', ''unwrapKey'', ''deriveKey'', ''deriveBits''} \<and>
         set (usages (publicKey res)) \<subseteq> {''verify'', ''encrypt'', ''wrapKey''}"
    by (intro allI impI) (rule ed_generateKey_ok)
  show ?thesis
    by (rule conjI [OF srsa conjI [OF sec conjI [OF sed conjI [OF prsa conjI [OF pec
          conjI [OF rrsa conjI [OF rec red]]]]]]])
qed

text \<open>
  The instances for an engine that knows \<open>rsa\<close> with a modulus of 2048 bits and the
  exponent 65537, \<open>ec\<close> with the curve \<open>prime256v1\<close> and \<open>ed25519\<close>: key pairs requested as
  not extractable with the usages sign, verify, encrypt and deriveBits, the EC curve given
  as \<open>p-256\<close> and the Ed curve as \<open>Ed25519\<close>; the pairs that the three functions return
  there have their usages inside the two sets.
\<close>

theorem C8_generateKey_witness:
  "(\<exists>res. RsaCrypto_generateKey
        (\<lambda>t opts. if (t, opts) \<in> set [(''rsa'', RsaOptions (Some 2048) 65537),
                        (''ec'', EcOptions ''prime256v1''), (''ed25519'', NoOptions)]
                   then Inr ([1], [2]) else Inl (EngineError []))
        ((algorithm_named ''RSA-PSS'')\<lparr>modulusLength := Some 2048, publicExponent := Some [1, 0, 1]\<rparr>)
        False [''sign'', ''verify'', ''encrypt'', ''deriveBits'']
      = Inr res \<and>
      data (privateKey res) = [1] \<and> data (publicKey res) = [2] \<and>
      extractable (publicKey res) = True \<and> extractable (privateKey res) = False \<and>
      usages (privateKey res) = [''sign''] \<and> usages (publicKey res) = [''verify'', ''encrypt'']) \<and>
   (\<exists>res. EcCrypto_generateKey
        (\<lambda>t opts. if (t, opts) \<in> set [(''rsa'', RsaOptions (Some 2048) 65537),
                        (''ec'', EcOptions ''prime256v1''), (''ed25519'', NoOptions)]
                   then Inr ([1], [2]) else Inl (EngineError []))
        ((algorithm_named ''ECDSA'')\<lparr>namedCurve := Some ''p-256''\<rparr>)
        False [''sign'', ''verify'', ''encrypt'', ''deriveBits'']
      = Inr res \<and>
      data (privateKey res) = [1] \<and> data (publicKey res) = [2] \<and>
      extractable (publicKey res) = True \<and> extractable (privateKey res) = False \<and>
      usages (privateKey res) = [''sign'', ''deriveBits''] \<and> usages (publicKey res) = [''verify'']) \<and>
   (\<exists>res. EdCrypto_generateKey
        (\<lambda>t opts. if (t, opts) \<in> set [(''rsa'', RsaOptions (Some 2048) 65537),
                        (''ec'', EcOptions ''prime256v1''), (''ed25519'', NoOptions)]
                   then Inr ([1], [2]) else Inl (EngineError []))
        ((algorithm_named ''EdDSA'')\<lparr>namedCurve := Some ''Ed25519''\<rparr>)
        False [''sign'', ''verify'', ''encrypt'', ''deriveBits'']
      = Inr res \<and>
      data (privateKey res) = [1] \<and> data (publicKey res) = [2] \<and>
      extractable (publicKey res) = True \<and> extractable (privateKey res) = False \<and>
      usages (privateKey res) = [''sign'', ''deriveBits''] \<and> usages (publicKey res) = [''verify'']) \<and>
   (\<exists>priv pub st'. RsaProvider_onGenerateKey ''RSA-PSS''
        (\<lambda>t opts. if (t, opts) \<in> set [(''rsa'', RsaOptions (Some 2048) 65537),
                        (''ec'', EcOptions ''prime256v1''), (''ed25519'', NoOptions)]
                   then Inr ([1], [2]) else Inl (EngineError []))
        empty_registry ((algorithm_named ''RSA-PSS'')\<lparr>modulusLength := Some 2048, publicExponent := Some [1, 0, 1]\<rparr>)
        False [''sign'', ''verify'', ''encrypt'', ''deriveBits'']
      = (Inr (priv, pub), st') \<and>
      extractable pub = True \<and> extractable priv = False \<and>
      usages priv = [''sign''] \<and> usages pub = [''verify'', ''encrypt'']) \<and>
   (\<exists>priv pub st'. EcProvider_onGenerateKey ''ECDSA''
        (\<lambda>t opts. if (t, opts) \<in> set [(''rsa'', RsaOptions (Some 2048) 65537),
                        (''ec'', EcOptions ''prime256v1''), (''ed25519'', NoOptions)]
                   then Inr ([1], [2]) else Inl (EngineError []))
        empty_registry ((algorithm_named ''ECDSA'')\<lparr>namedCurve := Some ''p-256''\<rparr>)
        False [''sign'', ''verify'', ''encrypt'', ''deriveBits'']
      = (Inr (priv, pub), st') \<and>
      extractable pub = True \<and> extractable priv = False \<and>
      usages priv = [''sign'', ''deriveBits''] \<and> usages pub = [''verify'']) \<and>
   (\<exists>res. RsaCrypto_generateKey
        (\<lambda>t opts. if (t, opts) \<in> set [(''rsa'', RsaOptions (Some 2048) 65537),
                        (''ec'', EcOptions ''prime256v1''), (''ed25519'', NoOptions)]
                   then Inr ([1], [2]) else Inl (EngineError []))
        ((algorithm_named ''RSA-PSS'')\<lparr>modulusLength := Some 2048, publicExponent := Some [1, 0, 1]\<rparr>)
        False [''sign'', ''verify'', ''encrypt'', ''deriveBits'']
      = Inr res \<and>
      set (usages (privateKey res)) \<subseteq> {''sign'', ''decrypt'', ''unwrapKey'', ''deriveKey'', ''deriveBits''} \<and>
      set (usages (publicKey res)) \<subseteq> {''verify'', ''encrypt'', ''wrapKey''}) \<and>
   (\<exists>res. EcCrypto_generateKey
        (\<lambda>t opts. if (t, opts) \<in> set [(''rsa'', RsaOptions (Some 2048) 65537),
                        (''ec'', EcOptions ''prime256v1''), (''ed25519'', NoOptions)]
                   then Inr ([1], [2]) else Inl (EngineError []))
        ((algorithm_named ''ECDSA'')\<lparr>namedCurve := Some ''p-256''\<rparr>)
        False [''sign'', ''verify'', ''encrypt'', ''deriveBits'']
      = Inr res \<and>
      set (usages (privateKey res)) \<subseteq> {''sign'', ''decrypt'', ''unwrapKey'', ''deriveKey'', ''deriveBits''} \<and>
      set (usages (publicKey res)) \<subseteq> {''verify'', ''encrypt'', ''wrapKey''}) \<and>
   (\<exists>res. EdCrypto_generateKey
        (\<lambda>t opts. if (t, opts) \<in> set [(''rsa'', RsaOptions (Some 2048) 65537),
                        (''ec'', EcOptions ''prime256v1''), (''ed25519'', NoOptions)]
                   then Inr ([1], [2]) else Inl (EngineError []))
        ((algorithm_named ''EdDSA'')\<lparr>namedCurve := Some ''Ed25519''\<rparr>)
        False [''sign'', ''verify'', ''encrypt'', ''deriveBits'']
      = Inr res \<and>
      set (usages (privateKey res)) \<subseteq> {''sign'', ''decrypt'', ''unwrapKey'', ''deriveKey'', ''deriveBits''} \<and>
      set (usages (publicKey res)) \<subseteq> {''verify'', ''encrypt'', ''wrapKey''})"
proof -
  let ?G = "(\<lambda>t opts. if (t, opts) \<in> set [(''rsa'', RsaOptions (Some 2048) 65537),
            (''ec'', EcOptions ''prime256v1''), (''ed25519'', NoOptions)]
          then Inr ([1], [2]) else Inl (EngineError [])) :: string \<Rightarrow> KeyPairOptions \<Rightarrow> error + bytes \<times> bytes"
  let ?U = "[''sign'', ''verify'', ''encrypt'', ''deriveBits'']"
  let ?R = "(algorithm_named ''RSA-PSS'')\<lparr>modulusLength := Some 2048, publicExponent := Some [1, 0, 1]\<rparr>"
  let ?E = "(algorithm_named ''ECDSA'')\<lparr>namedCurve := Some ''p-256''\<rparr>"
  let ?D = "(algorithm_named ''EdDSA'')\<lparr>namedCurve := Some ''Ed25519''\<rparr>"
  have expo: "readInt32BE [0, 1, 0, 1] = 65537"
    by (simp add: readInt32BE_def)
  have r1: "publicExponent ?R = Some [1, 0, 1] \<and> length [1, 0, 1 :: byte] \<le> 4 \<and>
       ?G ''rsa'' (RsaOptions (modulusLength ?R)
          (readInt32BE (replicate (4 - length [1, 0, 1 :: byte]) 0 @ [1, 0, 1]))) = Inr ([1], [2])"
    by (simp add: expo algorithm_named_def)
  have e1: "namedCurve ?E = Some ''p-256'' \<and>
       (toUpperCase ''p-256'', ''prime256v1'') \<in> set [(''P-256'', ''prime256v1''), (''K-256'', ''secp256k1''),
                                    (''P-384'', ''secp384r1''), (''P-521'', ''secp521r1'')] \<and>
       ?G ''ec'' (EcOptions ''prime256v1'') = Inr ([1], [2])"
    by (simp add: algorithm_named_def toUpperCase_def)
  have d1: "namedCurve ?D = Some ''Ed25519'' \<and>
       ?G (toLowerCase ''Ed25519'') NoOptions = Inr ([1], [2])"
    by (simp add: algorithm_named_def toLowerCase_def)
  have a: "(\<exists>res. RsaCrypto_generateKey ?G ?R False ?U = Inr res \<and>
      data (privateKey res) = [1] \<and> data (publicKey res) = [2] \<and>
      extractable (publicKey res) = True \<and> extractable (privateKey res) = False \<and>
      usages (privateKey res) = [''sign''] \<and> usages (publicKey res) = [''verify'', ''encrypt''])"
    using C8_generateKey_public_extractable_usages_filtered [where g = "?G" and alg = "?R"
        and ext = False and keyUsages = "?U",
        THEN conjunct1, rule_format, of "[1, 0, 1]" "[1]" "[2]", OF r1]
    by (auto simp add: RsaCrypto_privateKeyUsages_def RsaCrypto_publicKeyUsages_def)
  have b: "(\<exists>res. EcCrypto_generateKey ?G ?E False ?U = Inr res \<and>
      data (privateKey res) = [1] \<and> data (publicKey res) = [2] \<and>
      extractable (publicKey res) = True \<and> extractable (privateKey res) = False \<and>
      usages (privateKey res) = [''sign'', ''deriveBits''] \<and> usages (publicKey res) = [''verify''])"
    using C8_generateKey_public_extractable_usages_filtered [where g = "?G" and alg = "?E"
        and ext = False and keyUsages = "?U",
        THEN conjunct2, THEN conjunct1, rule_format, of "''p-256''" "''prime256v1''" "[1]" "[2]", OF e1]
    by (auto simp add: EcCrypto_privateKeyUsages_def EcCrypto_publicKeyUsages_def)
  have c: "(\<exists>res. EdCrypto_generateKey ?G ?D False ?U = Inr res \<and>
      data (privateKey res) = [1] \<and> data (publicKey res) = [2] \<and>
      extractable (publicKey res) = True \<and> extractable (privateKey res) = False \<and>
      usages (privateKey res) = [''sign'', ''deriveBits''] \<and> usages (publicKey res) = [''verify''])"
    using C8_generateKey_public_extractable_usages_filtered [where g = "?G" and alg = "?D"
        and ext = False and keyUsages = "?U",
        THEN conjunct2, THEN conjunct2, THEN conjunct1, rule_format, of "''Ed25519''" "[1]" "[2]", OF d1]
    by (auto simp add: EdCrypto_privateKeyUsages_def EdCrypto_publicKeyUsages_def)
  have d: "(\<exists>priv pub st'. RsaProvider_onGenerateKey ''RSA-PSS'' ?G empty_registry ?R False ?U
        = (Inr (priv, pub), st') \<and>
      extractable pub = True \<and> extractable priv = False \<and>
      usages priv = [''sign''] \<and> usages pub = [''verify'', ''encrypt''])"
    using C8_generateKey_public_extractable_usages_filtered [where g = "?G" and alg = "?R"
        and ext = False and keyUsages = "?U" and this_name = "''RSA-PSS''" and st = empty_registry,
        THEN conjunct2, THEN conjunct2, THEN conjunct2, THEN conjunct1, rule_format,
        of "[1, 0, 1]" "[1]" "[2]", OF r1]
    by (auto simp add: RsaCrypto_privateKeyUsages_def RsaCrypto_publicKeyUsages_def)
  have e: "(\<exists>priv pub st'. EcProvider_onGenerateKey ''ECDSA'' ?G empty_registry ?E False ?U
        = (Inr (priv, pub), st') \<and>
      extractable pub = True \<and> extractable priv = False \<and>
      usages priv = [''sign'', ''deriveBits''] \<and> usages pub = [''verify''])"
    using C8_generateKey_public_extractable_usages_filtered [where g = "?G" and alg = "?E"
        and ext = False and keyUsages = "?U" and this_name = "''ECDSA''" and st = empty_registry,
        THEN conjunct2, THEN conjunct2, THEN conjunct2, THEN conjunct2, THEN conjunct1, rule_format,
        of "''p-256''" "''prime256v1''" "[1]" "[2]", OF e1]
    by (auto simp add: EcCrypto_privateKeyUsages_def EcCrypto_publicKeyUsages_def)
  have f: "(\<exists>res. RsaCrypto_generateKey ?G ?R False ?U
      = Inr res \<and>
      set (usages (privateKey res)) \<subseteq> {''sign'', ''decrypt'', ''unwrapKey'', ''deriveKey'', ''deriveBits''} \<and>
      set (usages (publicKey res)) \<subseteq> {''verify'', ''encrypt'', ''wrapKey''})"
  proof -
    obtain res where r: "RsaCrypto_generateKey ?G ?R False ?U = Inr res"
      using a by blast
    show ?thesis
      using C8_generateKey_public_extractable_usages_filtered [where g = "?G" and alg = "?R"
          and ext = False and keyUsages = "?U",
          THEN conjunct2, THEN conjunct2, THEN conjunct2, THEN conjunct2, THEN conjunct2, THEN conjunct1, rule_format, OF r] r
      by blast
  qed
  have g: "(\<exists>res. EcCrypto_generateKey ?G ?E False ?U
      = Inr res \<and>
      set (usages (privateKey res)) \<subseteq> {''sign'', ''decrypt'', ''unwrapKey'', ''deriveKey'', ''deriveBits''} \<and>
      set (usages (publicKey res)) \<subseteq> {''verify'', ''encrypt'', ''wrapKey''})"
  proof -
    obtain res where r: "EcCrypto_generateKey ?G ?E False ?U = Inr res"
      using b by blast
    show ?thesis
      using C8_generateKey_public_extractable_usages_filtered [where g = "?G" and alg = "?E"
          and ext = False and keyUsages = "?U",
          THEN conjunct2, THEN conjunct2, THEN conjunct2, THEN conjunct2, THEN conjunct2, THEN conjunct2, THEN conjunct1, rule_format, OF r] r
      by blast
  qed
  have h: "(\<exists>res. EdCrypto_generateKey ?G ?D False ?U
      = Inr res \<and>
      set (usages (privateKey res)) \<subseteq> {''sign'', ''decrypt'', ''unwrapKey'', ''deriveKey'', ''deriveBits''} \<and>
      set (usages (publicKey res)) \<subseteq> {''verify'', ''encrypt'', ''wrapKey''})"
  proof -
    obtain res where r: "EdCrypto_generateKey ?G ?D False ?U = Inr res"
      using c by blast
    show ?thesis
      using C8_generateKey_public_extractable_usages_filtered [where g = "?G" and alg = "?D"
          and ext = False and keyUsages = "?U",
          THEN conjunct2, THEN conjunct2, THEN conjunct2, THEN conjunct2, THEN conjunct2, THEN conjunct2, THEN conjunct2, rule_format, OF r] r
      by blast
  qed
  show ?thesis
    by (rule conjI [OF a conjI [OF b conjI [OF c conjI [OF d conjI [OF e conjI [OF f
          conjI [OF g h]]]]]]])
qed

section \<open>Properties of ECDSA verification\<close>

lemma removePadding_dropWhile: "EcCrypto_removePadding bs = dropWhile (\<lambda>b. b = 0) bs"
  by (induction bs) auto

lemma removePadding_replicate:
  "EcCrypto_removePadding (replicate n 0 @ bs) = EcCrypto_removePadding bs"
  by (induction n) auto

text \<open>
  C5, as stated: a raw signature whose length is not twice the point size is rejected
  before verification. \<open>EcCrypto.verify\<close> has no length check: for P-256 (point size 32) a
  signature of 65 bytes is passed on to the engine, whose verdict (here: accepted) is the
  result, through the provider as well.
\<close>

theorem C5_wrong_length_not_rejected:
  "length (replicate 65 (1 :: byte)) \<noteq> 2 * 32 \<and>
   fst (EcCrypto_verify (\<lambda>d. []) (\<lambda>r s. r @ s) (\<lambda>n. Inr (\<lambda>p m sig. Inr True))
          ((algorithm_named ''ECDSA'')\<lparr>hash := Some ''SHA-256''\<rparr>)
          ((new_key EcPublicKey)
             \<lparr>algorithm := Some ((algorithm_named ''ECDSA'')\<lparr>namedCurve := Some ''P-256''\<rparr>)\<rparr>)
          (replicate 65 1) [1, 2, 3]) = Inr True \<and>
   fst (EcdsaProvider_onVerify (\<lambda>d. []) (\<lambda>r s. r @ s) (\<lambda>n. Inr (\<lambda>p m sig. Inr True))
          (snd (setCryptoKey empty_registry ((new_key EcPublicKey)
             \<lparr>algorithm := Some ((algorithm_named ''ECDSA'')\<lparr>namedCurve := Some ''P-256''\<rparr>)\<rparr>)))
          ((algorithm_named ''ECDSA'')\<lparr>hash := Some ''SHA-256''\<rparr>)
          (fst (setCryptoKey empty_registry ((new_key EcPublicKey)
             \<lparr>algorithm := Some ((algorithm_named ''ECDSA'')\<lparr>namedCurve := Some ''P-256''\<rparr>)\<rparr>)))
          (replicate 65 1) [1, 2, 3]) = Inr True"
  by (simp add: EcCrypto_verify_def EcdsaProvider_onVerify_def getCryptoKey_def setCryptoKey_def
        empty_registry_def algorithm_named_def new_key_def with_pem_def EcCrypto_getPointSize_def
        Let_def slice_bytes_def)

text \<open>
  C5, amended: for every curve with a point size \<open>n\<close> (P-256, K-256: 32; P-384: 48;
  P-521: 66) and every raw signature of any length, \<open>EcCrypto.verify\<close> makes no length
  check: it takes the first \<open>n\<close> bytes as \<open>r\<close> and the next \<open>n\<close> bytes as \<open>s\<close> (fewer
  when the signature is short), strips their leading zero bytes, and returns the engine's
  verdict on the ASN.1 encoding of the two; bytes beyond \<open>2 n\<close> are ignored.
\<close>

theorem C5_verify_has_no_length_check:
  assumes "hash alg = Some h" and "createVerify (replace_hyphen h) = Inr signer"
    and "algorithm key = Some a" and "namedCurve a = Some c" and "EcCrypto_getPointSize c = Inr n"
  shows "fst (EcCrypto_verify base64 serialize createVerify alg key signature msg) =
           signer (the (pem (with_pem base64 ''PUBLIC'' key))) msg
             (serialize (EcCrypto_removePadding (take n signature))
                        (EcCrypto_removePadding (take n (drop n signature)))) \<and>
         EcCrypto_verify base64 serialize createVerify alg key signature msg =
           EcCrypto_verify base64 serialize createVerify alg key (take (2 * n) signature) msg"
proof -
  have a: "algorithm (with_pem base64 ''PUBLIC'' key) = Some a"
    using assms(3) by (simp add: with_pem_def split: option.split)
  have b: "take n (take (2 * n) signature) = take n signature"
    by (simp add: min_def)
  have c: "take n (drop n (take (2 * n) signature)) = take n (drop n signature)"
    by (simp add: drop_take)
  show ?thesis
    using assms a b c by (simp add: EcCrypto_verify_def Let_def slice_bytes_def)
qed

text \<open>
  The instance for P-256 and a signature of 67 bytes: the engine sees \<open>r = [7]\<close>,
  \<open>s = [9]\<close>.
\<close>

theorem C5_verify_witness:
  "fst (EcCrypto_verify (\<lambda>d. []) (\<lambda>r s. r @ s) (\<lambda>n. Inr (\<lambda>p m sig. Inr (sig = [7, 9])))
          ((algorithm_named ''ECDSA'')\<lparr>hash := Some ''SHA-256''\<rparr>)
          ((new_key EcPublicKey)
             \<lparr>algorithm := Some ((algorithm_named ''ECDSA'')\<lparr>namedCurve := Some ''P-256''\<rparr>)\<rparr>)
          (replicate 31 0 @ [7] @ replicate 31 0 @ [9] @ [5, 5, 5]) [1, 2, 3]) = Inr True"
proof -
  have h1: "hash ((algorithm_named ''ECDSA'')\<lparr>hash := Some ''SHA-256''\<rparr>) = Some ''SHA-256''"
    by simp
  have h2: "(\<lambda>n. Inr (\<lambda>p m sig. Inr (sig = [7, 9 :: byte]))) (replace_hyphen ''SHA-256'')
              = (Inr (\<lambda>p m sig. Inr (sig = [7, 9])) :: error + (string \<Rightarrow> bytes \<Rightarrow> bytes \<Rightarrow> error + bool))"
    by simp
  have h3: "algorithm ((new_key EcPublicKey)
             \<lparr>algorithm := Some ((algorithm_named ''ECDSA'')\<lparr>namedCurve := Some ''P-256''\<rparr>)\<rparr>)
            = Some ((algorithm_named ''ECDSA'')\<lparr>namedCurve := Some ''P-256''\<rparr>)"
    by simp
  have h4: "namedCurve ((algorithm_named ''ECDSA'')\<lparr>namedCurve := Some ''P-256''\<rparr>) = Some ''P-256''"
    by simp
  have h5: "EcCrypto_getPointSize ''P-256'' = Inr 32"
    by (simp add: EcCrypto_getPointSize_def)
  show ?thesis
    using C5_verify_has_no_length_check [OF h1 h2 h3 h4 h5, of "\<lambda>d. []" "\<lambda>r s. r @ s"
        "replicate 31 0 @ [7] @ replicate 31 0 @ [9] @ [5, 5, 5]" "[1, 2, 3]", THEN conjunct1]
    by (simp add: removePadding_replicate)
qed

section \<open>Properties of RSA-OAEP decryption\<close>

lemma find_psEnd_error:
  "find_psEnd d n p = Inl e \<Longrightarrow> e = Error ''Decryption failed''"
  by (induction n arbitrary: p) (auto split: if_splits)

lemma mgf1_returns:
  "ShaCrypto_size hname = Inr bits \<Longrightarrow> \<exists>m. mgf1 H hname seed len = Inr m"
  by (simp add: mgf1_def Let_def)

lemma oaep_unpad_error:
  assumes "ShaCrypto_size hname = Inr bits" and "oaep_unpad H hname hashSize label pkcs0 = Inl e"
  shows "e = Error ''Decryption failed''"
proof -
  obtain m1 where m1: "mgf1 H hname (drop (hashSize + 1) pkcs0)
                         (length (slice_bytes pkcs0 1 (hashSize + 1))) = Inr m1"
    using mgf1_returns [OF assms(1)] by blast
  obtain m2 where m2: "mgf1 H hname (xor_mask (slice_bytes pkcs0 1 (hashSize + 1)) m1)
                         (length (drop (hashSize + 1) pkcs0)) = Inr m2"
    using mgf1_returns [OF assms(1)] by blast
  show ?thesis
    using assms(2) m1 m2
    by (auto simp add: oaep_unpad_def Let_def split: if_splits sum.splits dest: find_psEnd_error)
qed

text \<open>
  C2, as stated: every failure of the unpadding, an input of the wrong length included,
  raises one identical error. For a 1024-bit key an input of 127 bytes raises
  \<open>Error("Bad data")\<close>, an input of 128 bytes with a nonzero leading byte raises
  \<open>Error("Decryption failed")\<close>.
\<close>

theorem C2_bad_data_is_distinct:
  "fst (RsaOaepProvider_onDecrypt (\<lambda>d. []) (\<lambda>n d. []) (\<lambda>p d. Inr d)
          (snd (setCryptoKey empty_registry ((new_key RsaPrivateKey)
             \<lparr>algorithm := Some ((algorithm_named ''RSA-OAEP'')
                 \<lparr>modulusLength := Some 1024, hash := Some ''SHA-1''\<rparr>)\<rparr>)))
          None
          (fst (setCryptoKey empty_registry ((new_key RsaPrivateKey)
             \<lparr>algorithm := Some ((algorithm_named ''RSA-OAEP'')
                 \<lparr>modulusLength := Some 1024, hash := Some ''SHA-1''\<rparr>)\<rparr>)))
          (replicate 127 1)) = Inl (Error ''Bad data'') \<and>
   fst (RsaOaepProvider_onDecrypt (\<lambda>d. []) (\<lambda>n d. []) (\<lambda>p d. Inr d)
          (snd (setCryptoKey empty_registry ((new_key RsaPrivateKey)
             \<lparr>algorithm := Some ((algorithm_named ''RSA-OAEP'')
                 \<lparr>modulusLength := Some 1024, hash := Some ''SHA-1''\<rparr>)\<rparr>)))
          None
          (fst (setCryptoKey empty_registry ((new_key RsaPrivateKey)
             \<lparr>algorithm := Some ((algorithm_named ''RSA-OAEP'')
                 \<lparr>modulusLength := Some 1024, hash := Some ''SHA-1''\<rparr>)\<rparr>)))
          (replicate 128 1)) = Inl (Error ''Decryption failed'') \<and>
   Error ''Bad data'' \<noteq> Error ''Decryption failed''"
  by (simp add: RsaOaepProvider_onDecrypt_def getCryptoKey_def setCryptoKey_def empty_registry_def
        new_key_def algorithm_named_def ShaCrypto_size_def toUpperCase_def shr_def Let_def
        with_pem_def oaep_unpad_def byte_at_def)

text \<open>
  C2, amended: for every RSA-OAEP key (its handle resolves, its hash is one of the four
  supported) and every input, a failure of \<open>onDecrypt\<close> is \<open>Error("Bad data")\<close> when the
  input's length differs from the modulus byte length, the engine's own error when the RSA
  primitive throws, and in every other case (nonzero leading byte, label-hash mismatch, a
  padding byte other than 0 before the delimiter, missing delimiter) the one error
  \<open>Error("Decryption failed")\<close>.
\<close>

theorem C2_oaep_decrypt_errors:
  assumes "fst (getCryptoKey st key) = Inr k" and "algorithm k = Some a"
    and "hash a = Some hname" and "ShaCrypto_size hname = Inr bits"
    and "fst (RsaOaepProvider_onDecrypt base64 H privateDecrypt st label key input) = Inl e"
  shows "e = (if int (length input) \<noteq> shr (case modulusLength a of None \<Rightarrow> 0 | Some n \<Rightarrow> n) 3
              then Error ''Bad data''
              else case privateDecrypt (the (pem (with_pem base64 ''PRIVATE'' k))) input of
                     Inl e' \<Rightarrow> e'
                   | Inr pkcs0 \<Rightarrow> Error ''Decryption failed'')"
proof -
  obtain st1 where g: "getCryptoKey st key = (Inr k, st1)"
    using assms(1) by (cases "getCryptoKey st key") auto
  show ?thesis
    using assms(2-5) g
    by (auto simp add: RsaOaepProvider_onDecrypt_def Let_def
          split: if_splits sum.splits dest: oaep_unpad_error)
qed

text \<open>
  The instance for a 1024-bit key and an input of 128 bytes with the leading byte 2.
\<close>

theorem C2_oaep_decrypt_witness:
  "fst (RsaOaepProvider_onDecrypt (\<lambda>d. []) (\<lambda>n d. []) (\<lambda>p d. Inr d)
          (snd (setCryptoKey empty_registry ((new_key RsaPrivateKey)
             \<lparr>algorithm := Some ((algorithm_named ''RSA-OAEP'')
                 \<lparr>modulusLength := Some 1024, hash := Some ''SHA-1''\<rparr>)\<rparr>)))
          None
          (fst (setCryptoKey empty_registry ((new_key RsaPrivateKey)
             \<lparr>algorithm := Some ((algorithm_named ''RSA-OAEP'')
                 \<lparr>modulusLength := Some 1024, hash := Some ''SHA-1''\<rparr>)\<rparr>)))
          (replicate 128 2)) = Inl (Error ''Decryption failed'') \<and>
   Error ''Decryption failed'' =
     (if int (length (replicate 128 (2 :: byte))) \<noteq> shr 1024 3 then Error ''Bad data''
      else Error ''Decryption failed'')"
proof -
  let ?k = "(new_key RsaPrivateKey)
             \<lparr>algorithm := Some ((algorithm_named ''RSA-OAEP'')
                 \<lparr>modulusLength := Some 1024, hash := Some ''SHA-1''\<rparr>)\<rparr>"
  let ?a = "(algorithm_named ''RSA-OAEP'')\<lparr>modulusLength := Some 1024, hash := Some ''SHA-1''\<rparr>"
  let ?st = "snd (setCryptoKey empty_registry ?k)"
  let ?h = "fst (setCryptoKey empty_registry ?k)"
  have h1: "fst (getCryptoKey ?st ?h) = Inr ?k"
    by (simp add: getCryptoKey_def setCryptoKey_def empty_registry_def Let_def)
  have h2: "algorithm ?k = Some ?a" by simp
  have h3: "hash ?a = Some ''SHA-1''" by simp
  have h4: "ShaCrypto_size ''SHA-1'' = Inr 160"
    by (simp add: ShaCrypto_size_def toUpperCase_def)
  have h5: "fst (RsaOaepProvider_onDecrypt (\<lambda>d. []) (\<lambda>n d. []) (\<lambda>p d. Inr d)
              ?st None ?h (replicate 128 2)) = Inl (Error ''Decryption failed'')"
    by (simp add: RsaOaepProvider_onDecrypt_def getCryptoKey_def setCryptoKey_def empty_registry_def
        new_key_def algorithm_named_def ShaCrypto_size_def toUpperCase_def shr_def Let_def
        with_pem_def oaep_unpad_def byte_at_def)
  show ?thesis
    using C2_oaep_decrypt_errors [OF h1 h2 h3 h4 h5] h5
    by (simp add: algorithm_named_def shr_def)
qed

section \<open>Properties of HKDF\<close>


lemma length_hkdf_block:
  "\<forall>key m. length (hmac key m) = h \<Longrightarrow> 0 < i \<Longrightarrow> length (hkdf_block hmac PRK info' i) = h"
  by (cases i) auto
















section \<open>Properties of AES-CMAC\<close>

lemma xor_bytes_eq: "xor_bytes a b = spec_xor a b"
  by (rule nth_equalityI) (simp_all add: xor_bytes_def spec_xor_def)

lemma spec_xor_commute: "spec_xor a b = spec_xor b a"
  by (rule nth_equalityI) (simp_all add: spec_xor_def xor.commute min.commute)

lemma length_spec_xor: "length (spec_xor a b) = min (length a) (length b)"
  by (simp add: spec_xor_def)

lemma length_bitShiftLeft: "length (bitShiftLeft l) = length l"
  by (simp add: bitShiftLeft_def)

lemma bitShiftLeft_Nil: "bitShiftLeft [] = []"
  by (simp add: bitShiftLeft_def)

lemma bitShiftLeft_single: "bitShiftLeft [b] = [push_bit 1 b]"
  by (simp add: bitShiftLeft_def)

lemma bitShiftLeft_Cons:
  "bitShiftLeft (b # c # r) =
     (push_bit 1 b + (if c AND 0x80 \<noteq> 0 then 1 else 0)) # bitShiftLeft (c # r)"
proof -
  have "[0..<length (b # c # r)] = 0 # map Suc [0..<length (c # r)]"
    by (simp add: upt_conv_Cons map_Suc_upt del: upt_Suc)
  then show ?thesis
    by (simp add: bitShiftLeft_def del: upt_Suc)
qed

lemma top_bit_byte: "(c AND 0x80 \<noteq> 0) = bit (c :: byte) 7"
proof -
  have "(0x80 :: byte) = 2 ^ 7" by simp
  then show ?thesis
    by (simp only: and_exp_eq_0_iff_not_bit) simp
qed

lemma byte_of_bits_horner: "byte_of_bits bs = horner_sum of_bool 2 (rev bs)"
  unfolding byte_of_bits_def
  by (induction bs rule: rev_induct) (simp_all add: push_bit_eq_mult)

lemma byte_of_shifted:
  "byte_of_bits [bit b 6, bit b 5, bit b 4, bit b 3, bit b 2, bit b 1, bit b 0, x]
     = push_bit 1 (b :: byte) + of_bool x"
proof -
  have "[0..<7] = [0, 1, 2, 3, 4, 5, 6 :: nat]"
    by code_simp
  then have "[bit b 0, bit b 1, bit b 2, bit b 3, bit b 4, bit b 5, bit b 6] = map (bit b) [0..<7]"
    by simp
  then have "horner_sum of_bool 2 [bit b 0, bit b 1, bit b 2, bit b 3, bit b 4, bit b 5, bit b 6]
              = take_bit 7 b"
    by (simp only: horner_sum_bit_eq_take_bit)
  moreover have "push_bit 1 (take_bit 7 b) = push_bit 1 b"
  proof (rule bit_eqI)
    fix n
    assume "possible_bit TYPE(byte) n"
    then have "n < 8" by (simp add: possible_bit_word)
    then show "bit (push_bit 1 (take_bit 7 b)) n = bit (push_bit 1 b) n"
      unfolding bit_push_bit_iff bit_take_bit_iff by auto
  qed
  ultimately show ?thesis
    by (simp add: byte_of_bits_horner push_bit_eq_mult mult.commute)
qed

lemma bytes_of_bits_shift_step:
  "bytes_of_bits (tl (bits_of_byte b) @ bits_of_bytes (c # r) @ [False])
     = (push_bit 1 b + of_bool (bit c 7))
       # bytes_of_bits (tl (bits_of_byte c) @ bits_of_bytes r @ [False])"
  by (simp only: bits_of_byte_def bits_of_bytes_def list.sel list.map concat.simps append_Cons
        append_Nil bytes_of_bits.simps byte_of_shifted)

lemma bytes_of_bits_shift_last:
  "bytes_of_bits (tl (bits_of_byte b) @ [False]) = [push_bit 1 b]"
  by (simp only: bits_of_byte_def list.sel append_Cons append_Nil bytes_of_bits.simps
        byte_of_shifted of_bool_eq add_0_right)

lemma bitShiftLeft_eq_aux:
  "bitShiftLeft (b # r) = bytes_of_bits (tl (bits_of_byte b) @ bits_of_bytes r @ [False])"
proof (induction r arbitrary: b)
  case Nil
  then show ?case
    by (simp add: bitShiftLeft_single bytes_of_bits_shift_last bits_of_bytes_def)
next
  case (Cons c r)
  show ?case
    by (simp only: bitShiftLeft_Cons bytes_of_bits_shift_step Cons.IH top_bit_byte)
       (simp add: of_bool_def)
qed

lemma bitShiftLeft_spec: "bitShiftLeft l = spec_leftshift1 l"
proof (cases l)
  case Nil
  then show ?thesis by (simp add: bitShiftLeft_Nil spec_leftshift1_def bits_of_bytes_def)
next
  case (Cons b r)
  have "tl (bits_of_bytes (b # r)) = tl (bits_of_byte b) @ bits_of_bytes r"
    by (simp add: bits_of_bytes_def bits_of_byte_def)
  then show ?thesis
    unfolding Cons spec_leftshift1_def by (simp add: bitShiftLeft_eq_aux)
qed

lemma top_bit_spec: "l \<noteq> [] \<Longrightarrow> (l ! 0 AND 0x80 \<noteq> 0) = hd (bits_of_bytes l)"
  by (cases l) (simp_all add: top_bit_byte bits_of_bytes_def bits_of_byte_def)

lemma rb_spec: "rb = replicate 15 0 @ [0x87]"
  by (simp add: rb_def eval_nat_numeral)

lemma subkey_step:
  assumes "length l = 16"
  shows "(if l \<noteq> [] \<and> (l ! 0) AND 0x80 \<noteq> 0 then xor_bytes (bitShiftLeft l) rb else bitShiftLeft l)
           = spec_subkey l"
proof -
  have "l \<noteq> []" using assms by auto
  then show ?thesis
    by (simp add: top_bit_spec spec_subkey_def bitShiftLeft_spec xor_bytes_eq rb_spec)
qed

lemma length_spec_subkey: "length l = 16 \<Longrightarrow> length (spec_subkey l) = 16"
  using length_bitShiftLeft [of l]
  by (simp add: spec_subkey_def length_spec_xor bitShiftLeft_spec [symmetric])

lemma generateSubkeys_spec:
  assumes "length key = 16 \<or> length key = 24 \<or> length key = 32"
    and "length (E key zero) = 16"
  shows "generateSubkeys E key
           = Inr (spec_subkey (E key zero), spec_subkey (spec_subkey (E key zero)))"
proof -
  have a: "aes E key zero = Inr (E key zero)"
    using assms(1) by (simp add: aes_def)
  note s1 = subkey_step [OF assms(2)]
  note s2 = subkey_step [OF length_spec_subkey [OF assms(2)]]
  show ?thesis
    unfolding generateSubkeys_def a by (simp only: sum.case Let_def s1 s2)
qed

lemma spec_blocks_closed:
  "spec_blocks m = map (\<lambda>i. take 16 (drop (16 * i) m))
                     [0..<(if (length m + 15) div 16 = 0 then 1 else (length m + 15) div 16)]"
proof (induction m rule: spec_blocks.induct)
  case (1 m)
  show ?case
  proof (cases "length m \<le> 16")
    case True
    then have "(if (length m + 15) div 16 = 0 then 1 else (length m + 15) div 16) = 1"
      by auto
    then show ?thesis
      using True by (subst spec_blocks.simps) simp
  next
    case False
    define q where "q = (length m + 15) div 16"
    have q: "2 \<le> q" "(length (drop 16 m) + 15) div 16 = q - 1"
      using False by (auto simp add: q_def)
    have ih: "spec_blocks (drop 16 m)
                = map (\<lambda>i. take 16 (drop (16 * i) (drop 16 m))) [0..<q - 1]"
      using "1.IH" [OF False] q by (simp del: length_drop)
    have upt: "[0..<q] = 0 # map Suc [0..<q - 1]"
      using q(1) by (cases q) (simp_all add: upt_conv_Cons map_Suc_upt del: upt_Suc)
    have "spec_blocks m = take 16 m # spec_blocks (drop 16 m)"
      using False by (subst spec_blocks.simps) simp
    also have "\<dots> = map (\<lambda>i. take 16 (drop (16 * i) m)) [0..<q]"
      unfolding ih upt by (simp add: add.commute)
    finally show ?thesis
      using q(1) by (simp add: q_def)
  qed
qed

lemma aesCmac_loop_foldl:
  assumes "length key = 16 \<or> length key = 24 \<or> length key = 32"
  shows "aesCmac_loop E key m cnt idx x
           = Inr (foldl (\<lambda>x b. E key (spec_xor x b)) x (map (getMessageBlock m) [idx..<idx + cnt]))"
proof (induction cnt arbitrary: idx x)
  case 0
  then show ?case by simp
next
  case (Suc cnt)
  have "[idx..<idx + Suc cnt] = idx # [Suc idx..<Suc idx + cnt]"
    by (simp add: upt_conv_Cons del: upt_Suc)
  then show ?case
    using assms Suc.IH [of "Suc idx"] by (simp add: aes_def xor_bytes_eq del: upt_Suc)
qed

lemma getMessageBlock_full:
  "16 * i + 16 \<le> length m \<Longrightarrow> getMessageBlock m i = take 16 (drop (16 * i) m)"
  by (simp add: getMessageBlock_def blockSize_def slice_bytes_def Let_def mult.commute)

lemma getPaddedMessageBlock_partial:
  assumes "16 * i \<le> length m" and "length m < 16 * i + 16"
  shows "getPaddedMessageBlock m i
           = drop (16 * i) m @ [0x80] @ replicate (15 - (length m - 16 * i)) 0"
proof -
  define l where "l = length m - 16 * i"
  have l: "l < 16" "length (drop (16 * i) m) = l" using assms by (auto simp add: l_def)
  have c: "take 16 (slice_bytes m (i * 16) (length m)) = drop (16 * i) m"
    using l by (simp add: slice_bytes_def mult.commute l_def)
  have r: "replicate (16 - l) (0 :: byte) = 0 # replicate (15 - l) 0"
    using l(1) by (cases "16 - l") (auto simp add: replicate_Suc [symmetric] simp del: replicate_Suc)
  have "(drop (16 * i) m @ replicate (16 - l) 0)[l := 0x80]
          = drop (16 * i) m @ [0x80] @ replicate (15 - l) 0"
    using l(2) by (simp add: list_update_append r)
  then show ?thesis
    using assms(1) l
    by (simp add: getPaddedMessageBlock_def blockSize_def Let_def c l_def mult.commute)
qed

lemma zero_spec: "zero = replicate 16 0"
  by (simp add: zero_def eval_nat_numeral)

lemma aesCmac_spec:
  assumes key: "length key = 16 \<or> length key = 24 \<or> length key = 32"
    and E: "\<forall>b. length b = 16 \<longrightarrow> length (E key b) = 16"
  shows "aesCmac E key m = Inr (spec_cmac E key m)"
proof -
  define n where "n = length m"
  define q where "q = (n + 15) div 16"
  define nb where "nb = (if q = 0 then 1 else q)"
  define f where "f = (\<lambda>i. take 16 (drop (16 * i) m))"
  define k1 where "k1 = spec_subkey (E key zero)"
  define k2 where "k2 = spec_subkey k1"
  define step where "step = (\<lambda>x b. E key (spec_xor x b))"
  define x where "x = foldl step zero (map f [0..<nb - 1])"
  have nb: "0 < nb" by (simp add: nb_def)
  have bs: "spec_blocks m = map f [0..<nb]"
    unfolding f_def nb_def q_def n_def by (rule spec_blocks_closed)
  have but: "butlast (spec_blocks m) = map f [0..<nb - 1]"
    unfolding bs using nb by (cases nb) (simp_all add: map_butlast [symmetric])
  have lst: "last (spec_blocks m) = f (nb - 1)"
    unfolding bs using nb by (simp add: last_map)
  have start: "16 * (nb - 1) \<le> n" "n \<le> 16 * (nb - 1) + 16"
    unfolding nb_def q_def by auto
  have flast: "f (nb - 1) = drop (16 * (nb - 1)) m"
    unfolding f_def using start(2) by (simp add: n_def)
  have llast: "length (f (nb - 1)) = n - 16 * (nb - 1)"
    unfolding flast by (simp add: n_def)
  have full: "map (getMessageBlock m) [0..<nb - 1] = map f [0..<nb - 1]"
  proof (rule map_cong [OF refl])
    fix i assume "i \<in> set [0..<nb - 1]"
    then have "16 * i + 16 \<le> length m"
      using start(1) by (auto simp add: n_def)
    then show "getMessageBlock m i = f i"
      unfolding f_def by (rule getMessageBlock_full)
  qed
  have "aesCmac_loop E key m (nb - 1) 0 zero
          = Inr (foldl step zero (map (getMessageBlock m) [0..<0 + (nb - 1)]))"
    unfolding step_def by (rule aesCmac_loop_foldl [OF key])
  then have loop: "aesCmac_loop E key m (nb - 1) 0 zero = Inr x"
    by (simp only: add_0 full x_def)
  have sub: "generateSubkeys E key = Inr (k1, k2)"
    unfolding k1_def k2_def using generateSubkeys_spec [OF key] E by (simp add: zero_def)
  have "(if q = 0 then False else n mod 16 = 0) = (n - 16 * (nb - 1) = 16)"
    unfolding nb_def q_def by (auto; presburger)
  then have flag: "(if q = 0 then False else n mod 16 = 0) = (length (f (nb - 1)) = 16)"
    by (simp only: llast)
  have lastBlock:
    "(if (if q = 0 then False else n mod 16 = 0)
      then xor_bytes (getMessageBlock m (nb - 1)) k1
      else xor_bytes (getPaddedMessageBlock m (nb - 1)) k2)
     = spec_final_block (f (nb - 1)) k1 k2"
  proof (cases "length (f (nb - 1)) = 16")
    case True
    then have "16 * (nb - 1) + 16 \<le> length m"
      using llast by (simp add: n_def)
    then have "getMessageBlock m (nb - 1) = f (nb - 1)"
      unfolding f_def by (rule getMessageBlock_full)
    then show ?thesis
      using True by (simp add: flag spec_final_block_def xor_bytes_eq)
  next
    case False
    then have "length m < 16 * (nb - 1) + 16"
      using llast start(2) by (simp add: n_def)
    moreover have "16 * (nb - 1) \<le> length m"
      using start(1) by (simp add: n_def)
    ultimately have "getPaddedMessageBlock m (nb - 1)
        = f (nb - 1) @ [0x80] @ replicate (15 - length (f (nb - 1))) 0"
      unfolding flast by (simp add: getPaddedMessageBlock_partial)
    then show ?thesis
      using False by (simp add: flag spec_final_block_def xor_bytes_eq)
  qed
  have cnt: "(length m + blockSize - 1) div blockSize = q"
    by (simp add: blockSize_def q_def n_def)
  have md: "(length m mod blockSize = 0) = (n mod 16 = 0)"
    by (simp add: blockSize_def n_def)
  have last_aes: "aes E key (xor_bytes (spec_final_block (f (nb - 1)) k1 k2) x)
                    = Inr (E key (spec_xor (spec_final_block (f (nb - 1)) k1 k2) x))"
    using key by (simp add: aes_def xor_bytes_eq)
  have code: "aesCmac E key m = Inr (E key (spec_xor (spec_final_block (f (nb - 1)) k1 k2) x))"
    apply (simp only: aesCmac_def sub sum.case prod.case Let_def cnt md)
    apply (simp only: nb_def [symmetric])
    apply (simp only: lastBlock loop sum.case last_aes)
    done
  have spec: "spec_cmac E key m = E key (spec_xor x (spec_final_block (f (nb - 1)) k1 k2))"
    unfolding spec_cmac_def Let_def spec_cbc_def but lst
    by (simp add: x_def step_def k1_def k2_def zero_spec)
  show ?thesis
    unfolding code spec by (simp add: spec_xor_commute)
qed

text \<open>
  C4: for every key of 128, 192 or 256 bits (the handle resolves to a key material with
  16, 24 or 32 bytes of data) and every message, \<open>AesCmacProvider.onSign\<close> returns the
  specification's AES-CMAC: the subkeys are \<open>leftshift1\<close> of \<open>L = E(key, 0^128)\<close> and of
  subkey1, each XORed with \<open>0x...87\<close> when the top bit of the shifted block was set; the
  message is split into 16-byte blocks, the empty message being one block; a full final
  block is XORed with subkey1, any other final block is padded with \<open>0x80\<close> and zeros and
  XORed with subkey2; the blocks are CBC-chained from the zero IV, and the last
  ciphertext block is the MAC. \<open>E\<close> is the engine's block cipher: under this key it
  maps blocks of 16 bytes to blocks of 16 bytes.
\<close>

theorem C4_aes_cmac_sign_rfc4493:
  assumes "fst (getCryptoKey st key) = Inr k"
    and "length (data k) = 16 \<or> length (data k) = 24 \<or> length (data k) = 32"
    and "\<forall>b. length b = 16 \<longrightarrow> length (E (data k) b) = 16"
  shows "fst (AesCmacProvider_onSign E st key msg) = Inr (spec_cmac E (data k) msg)"
proof -
  obtain st1 where g: "getCryptoKey st key = (Inr k, st1)"
    using assms(1) by (cases "getCryptoKey st key") auto
  show ?thesis
    using g aesCmac_spec [where E = E and key = "data k", OF assms(2) assms(3)]
    by (simp add: AesCmacProvider_onSign_def)
qed

text \<open>
  The instance for a toy block cipher, a 16-byte key and the message \<open>[1, 2, 3]\<close>.
\<close>

theorem C4_aes_cmac_sign_witness:
  "fst (AesCmacProvider_onSign (\<lambda>k b. map (\<lambda>x. x + 0x80) (take 16 (b @ replicate 16 0)))
          (snd (setCryptoKey empty_registry ((new_key AesCryptoKey)\<lparr>data := replicate 16 1\<rparr>)))
          (fst (setCryptoKey empty_registry ((new_key AesCryptoKey)\<lparr>data := replicate 16 1\<rparr>)))
          [1, 2, 3])
     = Inr (spec_cmac (\<lambda>k b. map (\<lambda>x. x + 0x80) (take 16 (b @ replicate 16 0)))
              (data ((new_key AesCryptoKey)\<lparr>data := replicate 16 1\<rparr>)) [1, 2, 3]) \<and>
   spec_cmac (\<lambda>k b. map (\<lambda>x. x + 0x80) (take 16 (b @ replicate 16 0))) (replicate 16 1) [1, 2, 3]
     = [131, 128, 129, 2, 130, 130, 130, 130, 130, 130, 130, 130, 130, 130, 131, 142]"
proof
  let ?k = "(new_key AesCryptoKey)\<lparr>data := replicate 16 1\<rparr>"
  have h1: "fst (getCryptoKey (snd (setCryptoKey empty_registry ?k))
                   (fst (setCryptoKey empty_registry ?k))) = Inr ?k"
    by (simp add: getCryptoKey_def setCryptoKey_def empty_registry_def new_key_def Let_def)
  have h2: "length (data ?k) = 16 \<or> length (data ?k) = 24 \<or> length (data ?k) = 32"
    by simp
  have h3: "\<forall>b. length b = 16 \<longrightarrow>
              length ((\<lambda>k b. map (\<lambda>x. x + 0x80) (take 16 (b @ replicate 16 (0 :: byte)))) (data ?k) b) = 16"
    by auto
  show "fst (AesCmacProvider_onSign (\<lambda>k b. map (\<lambda>x. x + 0x80) (take 16 (b @ replicate 16 0)))
          (snd (setCryptoKey empty_registry ?k)) (fst (setCryptoKey empty_registry ?k)) [1, 2, 3])
     = Inr (spec_cmac (\<lambda>k b. map (\<lambda>x. x + 0x80) (take 16 (b @ replicate 16 0))) (data ?k) [1, 2, 3])"
    by (rule C4_aes_cmac_sign_rfc4493
          [where E = "\<lambda>k b. map (\<lambda>x. x + 0x80) (take 16 (b @ replicate 16 0))" and k = "?k",
           OF h1 h2 h3])
  show "spec_cmac (\<lambda>k b. map (\<lambda>x. x + 0x80) (take 16 (b @ replicate 16 0))) (replicate 16 1) [1, 2, 3]
     = [131, 128, 129, 2, 130, 130, 130, 130, 130, 130, 130, 130, 130, 130, 131, 142]"
    by code_simp
qed

end
